theory Spec2Isabelle
  imports Main
begin

section \<open>Data model: the two tables\<close>

text \<open>
  The table definitions declare \<open>TitleSessions\<close> and \<open>TitleIdeas\<close>. A text column is a
  \<open>string\<close>, a column declared \<open>optional: true\<close> is nullable (\<open>string option\<close>), a
  date column is a number of milliseconds (\<open>int\<close>). Field names carry a prefix
  (\<open>ts_\<close> for a session row, \<open>ti_\<close> for an idea row), since a record field is a
  constant of the theory and both tables have \<open>id\<close> and \<open>createdAt\<close>.
\<close>

type_synonym date = int

record TitleSession =
  ts_id :: string
  ts_userId :: string
  ts_contentType :: "string option"
  ts_workingTitle :: "string option"
  ts_topic :: "string option"
  ts_targetAudience :: "string option"
  ts_language :: "string option"
  ts_notes :: "string option"
  ts_createdAt :: date
  ts_updatedAt :: date

record TitleIdea =
  ti_id :: string
  ti_sessionId :: string
  ti_titleText :: string
  ti_tone :: "string option"
  ti_style :: "string option"
  ti_isFavorite :: bool
  ti_isSelected :: bool
  ti_createdAt :: date

text \<open>The store: each table is the list of its rows, in insertion order.\<close>

record db =
  TitleSessions :: "TitleSession list"
  TitleIdeas :: "TitleIdea list"

text \<open>
  The statements a handler sends to the store, recorded in the order they are issued.
  A delete carries the number of rows it affected.
\<close>

datatype table = TitleSessionsTable | TitleIdeasTable

datatype statement = Select table | Insert table | Update table | Delete table nat

fun is_write :: "statement \<Rightarrow> bool" where
  "is_write (Select t) = False"
| "is_write (Insert t) = True"
| "is_write (Update t) = True"
| "is_write (Delete t n) = True"

subsection \<open>Store primitives\<close>

text \<open>
  \<open>id\<close> is the primary key of both tables: an insert whose key is already in the table
  is rejected by the store and the table is left as it was (\<open>None\<close>).
\<close>

definition insert_values :: "('r \<Rightarrow> string) \<Rightarrow> 'r \<Rightarrow> 'r list \<Rightarrow> 'r list option" where
  "insert_values key row rows =
     (if key row \<in> set (map key rows) then None else Some (rows @ [row]))"

text \<open>\<open>update(..).set(..).where(..).returning()\<close>: the new table and the updated rows.\<close>

definition update_where :: "('r \<Rightarrow> bool) \<Rightarrow> ('r \<Rightarrow> 'r) \<Rightarrow> 'r list \<Rightarrow> 'r list \<times> 'r list" where
  "update_where w f rows = (map (\<lambda>r. if w r then f r else r) rows, map f (filter w rows))"

text \<open>\<open>delete(..).where(..)\<close>: the new table and \<open>rowsAffected\<close>.\<close>

definition delete_where :: "('r \<Rightarrow> bool) \<Rightarrow> 'r list \<Rightarrow> 'r list \<times> nat" where
  "delete_where w rows = (filter (\<lambda>r. \<not> w r) rows, length (filter w rows))"

text \<open>The destructuring \<open>const [x] = rows\<close>: the first row, or undefined.\<close>

fun first_row :: "'r list \<Rightarrow> 'r option" where
  "first_row [] = None"
| "first_row (r # rs) = Some r"

section \<open>Errors, request context, environment\<close>

datatype error_code = UNAUTHORIZED | NOT_FOUND

text \<open>
  A validation issue of the input schema: a value of the wrong type or a required field
  that is missing (with the name of the field, empty for the input itself), a string
  shorter than its \<open>min\<close> (with the name of the field), or a failed \<open>refine\<close> (with its
  message).
\<close>

datatype issue = InvalidType string | TooSmall string | Custom string

text \<open>
  What a call can fail with: an \<open>ActionError\<close> thrown by a handler (code and message),
  the input error raised when the input does not pass the action's schema, and the
  store's rejection of an insert that repeats a primary key.
\<close>

datatype failure =
    ActionError error_code string
  | ActionInputError "issue list"
  | ConstraintError table

record User =
  user_id :: string

record Locals =
  user :: "User option"

record ActionAPIContext =
  locals :: "Locals option"

text \<open>What the runtime supplies to a call: \<open>crypto.randomUUID()\<close> and \<open>new Date()\<close>.\<close>

record env =
  randomUUID :: string
  now :: date

type_synonym 'a outcome = "(failure + 'a) \<times> db \<times> statement list"

text \<open>\<open>locals?.user\<close>: undefined when there are no locals or no user in them.\<close>

definition locals_user :: "ActionAPIContext \<Rightarrow> User option" where
  "locals_user context = (case locals context of None \<Rightarrow> None | Some l \<Rightarrow> user l)"

definition requireUser :: "ActionAPIContext \<Rightarrow> failure + User" where
  "requireUser context =
     (case locals_user context of
        None \<Rightarrow> Inl (ActionError UNAUTHORIZED ''You must be signed in to perform this action.'')
      | Some u \<Rightarrow> Inr u)"

definition getOwnedSession :: "string \<Rightarrow> string \<Rightarrow> db \<Rightarrow> failure + TitleSession" where
  "getOwnedSession sessionId userId d =
     (case first_row (filter (\<lambda>s. ts_id s = sessionId \<and> ts_userId s = userId) (TitleSessions d)) of
        None \<Rightarrow> Inl (ActionError NOT_FOUND ''Title session not found.'')
      | Some session \<Rightarrow> Inr session)"

section \<open>Input schemas\<close>

text \<open>
  An action is declared with an input schema and a handler. The input is parsed with
  the schema first; the handler runs on the parsed value only when the schema reports
  no issue, otherwise the call fails with the issues and the handler is not entered.
  A field \<open>z.string().optional()\<close> or \<open>z.boolean().optional()\<close> is an \<open>option\<close>.
\<close>

definition defineAction ::
  "('i \<Rightarrow> issue list + 'p) \<Rightarrow> (env \<Rightarrow> 'p \<Rightarrow> ActionAPIContext \<Rightarrow> db \<Rightarrow> 'a outcome)
     \<Rightarrow> env \<Rightarrow> 'i \<Rightarrow> ActionAPIContext \<Rightarrow> db \<Rightarrow> 'a outcome" where
  "defineAction schema handler e raw context d =
     (case schema raw of
        Inl issues \<Rightarrow> (Inl (ActionInputError issues), d, [])
      | Inr input \<Rightarrow> handler e input context d)"

text \<open>\<open>z.string().min(1)\<close> on the field called \<open>path\<close>.\<close>

definition string_min1 :: "string \<Rightarrow> string \<Rightarrow> issue list" where
  "string_min1 path v = (if length v < 1 then [TooSmall path] else [])"

text \<open>
  \<open>.refine(check, {message})\<close>: the check runs on the object also when a field was too
  short, and its issue comes after those of the fields.
\<close>

definition refine :: "bool \<Rightarrow> string \<Rightarrow> issue list" where
  "refine check message = (if check then [] else [Custom message])"

definition parsed :: "issue list \<Rightarrow> 'p \<Rightarrow> issue list + 'p" where
  "parsed issues v = (if issues = [] then Inr v else Inl issues)"

record CreateTitleSessionInput =
  cs_contentType :: "string option"
  cs_workingTitle :: "string option"
  cs_topic :: "string option"
  cs_targetAudience :: "string option"
  cs_language :: "string option"
  cs_notes :: "string option"

record UpdateTitleSessionInput =
  us_id :: string
  us_contentType :: "string option"
  us_workingTitle :: "string option"
  us_topic :: "string option"
  us_targetAudience :: "string option"
  us_language :: "string option"
  us_notes :: "string option"

record CreateTitleIdeaInput =
  ci_sessionId :: string
  ci_titleText :: string
  ci_tone :: "string option"
  ci_style :: "string option"
  ci_isFavorite :: "bool option"
  ci_isSelected :: "bool option"

record UpdateTitleIdeaInput =
  ui_id :: string
  ui_sessionId :: string
  ui_titleText :: "string option"
  ui_tone :: "string option"
  ui_style :: "string option"
  ui_isFavorite :: "bool option"
  ui_isSelected :: "bool option"

record DeleteTitleIdeaInput =
  di_id :: string
  di_sessionId :: string

text \<open>
  \<open>listTitleIdeas\<close> declares its two flags with \<open>z.boolean().default(false)\<close>: they may
  be left out of the input, and the parsed value always has them.
\<close>

record ListTitleIdeasInput =
  li_sessionId :: string
  li_favoritesOnly :: "bool option"
  li_selectedOnly :: "bool option"

record ListTitleIdeasParsed =
  sessionId :: string
  favoritesOnly :: bool
  selectedOnly :: bool

definition createTitleSession_input :: "CreateTitleSessionInput \<Rightarrow> issue list + CreateTitleSessionInput" where
  "createTitleSession_input raw = parsed [] raw"

definition updateTitleSession_input :: "UpdateTitleSessionInput \<Rightarrow> issue list + UpdateTitleSessionInput" where
  "updateTitleSession_input raw =
     parsed (string_min1 ''id'' (us_id raw) @
             refine (us_contentType raw \<noteq> None \<or> us_workingTitle raw \<noteq> None \<or>
                     us_topic raw \<noteq> None \<or> us_targetAudience raw \<noteq> None \<or>
                     us_language raw \<noteq> None \<or> us_notes raw \<noteq> None)
               ''At least one field must be provided to update.'') raw"

definition listTitleSessions_input :: "unit \<Rightarrow> issue list + unit" where
  "listTitleSessions_input raw = parsed [] raw"

definition createTitleIdea_input :: "CreateTitleIdeaInput \<Rightarrow> issue list + CreateTitleIdeaInput" where
  "createTitleIdea_input raw =
     parsed (string_min1 ''sessionId'' (ci_sessionId raw) @
             string_min1 ''titleText'' (ci_titleText raw)) raw"

definition updateTitleIdea_input :: "UpdateTitleIdeaInput \<Rightarrow> issue list + UpdateTitleIdeaInput" where
  "updateTitleIdea_input raw =
     parsed (string_min1 ''id'' (ui_id raw) @ string_min1 ''sessionId'' (ui_sessionId raw) @
             refine (ui_titleText raw \<noteq> None \<or> ui_tone raw \<noteq> None \<or> ui_style raw \<noteq> None \<or>
                     ui_isFavorite raw \<noteq> None \<or> ui_isSelected raw \<noteq> None)
               ''At least one field must be provided to update.'') raw"

definition deleteTitleIdea_input :: "DeleteTitleIdeaInput \<Rightarrow> issue list + DeleteTitleIdeaInput" where
  "deleteTitleIdea_input raw =
     parsed (string_min1 ''id'' (di_id raw) @ string_min1 ''sessionId'' (di_sessionId raw)) raw"

definition listTitleIdeas_input :: "ListTitleIdeasInput \<Rightarrow> issue list + ListTitleIdeasParsed" where
  "listTitleIdeas_input raw =
     parsed (string_min1 ''sessionId'' (li_sessionId raw))
       \<lparr>sessionId = li_sessionId raw,
        favoritesOnly = (case li_favoritesOnly raw of None \<Rightarrow> False | Some b \<Rightarrow> b),
        selectedOnly = (case li_selectedOnly raw of None \<Rightarrow> False | Some b \<Rightarrow> b)\<rparr>"

subsection \<open>Request bodies of the two update actions\<close>

text \<open>
  The records above are the inputs that have the declared types. The input of a call
  arrives as JSON, where a field can also be missing or hold a value of another type,
  and the schema checks that first. A field of a body is absent, a string, a boolean, or
  anything else (a number, \<open>null\<close>, an array, an object); the body itself may fail to be
  an object.
\<close>

datatype field = Absent | Text string | Flag bool | Other

datatype 'b body = NotAnObject | Object 'b

text \<open>
  The field schemas. Each gives the issues of the field and the parsed value; there is
  no value when the type is wrong, which aborts the parse of the object.
\<close>

fun z_string_min1 :: "string \<Rightarrow> field \<Rightarrow> issue list \<times> string option" where
  "z_string_min1 path (Text s) = (string_min1 path s, Some s)"
| "z_string_min1 path Absent = ([InvalidType path], None)"
| "z_string_min1 path (Flag b) = ([InvalidType path], None)"
| "z_string_min1 path Other = ([InvalidType path], None)"

fun z_string_optional :: "string \<Rightarrow> field \<Rightarrow> issue list \<times> string option option" where
  "z_string_optional path Absent = ([], Some None)"
| "z_string_optional path (Text s) = ([], Some (Some s))"
| "z_string_optional path (Flag b) = ([InvalidType path], None)"
| "z_string_optional path Other = ([InvalidType path], None)"

fun z_boolean_optional :: "string \<Rightarrow> field \<Rightarrow> issue list \<times> bool option option" where
  "z_boolean_optional path Absent = ([], Some None)"
| "z_boolean_optional path (Flag b) = ([], Some (Some b))"
| "z_boolean_optional path (Text s) = ([InvalidType path], None)"
| "z_boolean_optional path Other = ([InvalidType path], None)"

record UpdateTitleSessionBody =
  usb_id :: field
  usb_contentType :: field
  usb_workingTitle :: field
  usb_topic :: field
  usb_targetAudience :: field
  usb_language :: field
  usb_notes :: field

record UpdateTitleIdeaBody =
  uib_id :: field
  uib_sessionId :: field
  uib_titleText :: field
  uib_tone :: field
  uib_style :: field
  uib_isFavorite :: field
  uib_isSelected :: field

text \<open>
  The object schema with its \<open>refine\<close>, on a body. Every field is parsed and the issues
  are collected in the order of the fields. When a field has no value the parse is
  aborted with those issues and the \<open>refine\<close> is not run; otherwise the fields form a
  typed input, on which the bounds and the \<open>refine\<close> are those of the typed schema above.
\<close>

definition updateTitleSession_body ::
  "UpdateTitleSessionBody body \<Rightarrow> issue list + UpdateTitleSessionInput" where
  "updateTitleSession_body b =
     (case b of
        NotAnObject \<Rightarrow> Inl [InvalidType []]
      | Object w \<Rightarrow>
          (let id = z_string_min1 ''id'' (usb_id w);
               contentType = z_string_optional ''contentType'' (usb_contentType w);
               workingTitle = z_string_optional ''workingTitle'' (usb_workingTitle w);
               topic = z_string_optional ''topic'' (usb_topic w);
               targetAudience = z_string_optional ''targetAudience'' (usb_targetAudience w);
               language = z_string_optional ''language'' (usb_language w);
               notes = z_string_optional ''notes'' (usb_notes w)
           in case Option.bind (snd id) (\<lambda>i.
                   Option.bind (snd contentType) (\<lambda>c.
                   Option.bind (snd workingTitle) (\<lambda>wt.
                   Option.bind (snd topic) (\<lambda>t.
                   Option.bind (snd targetAudience) (\<lambda>ta.
                   Option.bind (snd language) (\<lambda>l.
                   Option.bind (snd notes) (\<lambda>n.
                     Some \<lparr>us_id = i, us_contentType = c, us_workingTitle = wt, us_topic = t,
                           us_targetAudience = ta, us_language = l, us_notes = n\<rparr>))))))) of
                None \<Rightarrow>
                  Inl (fst id @ fst contentType @ fst workingTitle @ fst topic @
                       fst targetAudience @ fst language @ fst notes)
              | Some raw \<Rightarrow> updateTitleSession_input raw))"

definition updateTitleIdea_body ::
  "UpdateTitleIdeaBody body \<Rightarrow> issue list + UpdateTitleIdeaInput" where
  "updateTitleIdea_body b =
     (case b of
        NotAnObject \<Rightarrow> Inl [InvalidType []]
      | Object w \<Rightarrow>
          (let id = z_string_min1 ''id'' (uib_id w);
               sid = z_string_min1 ''sessionId'' (uib_sessionId w);
               titleText = z_string_optional ''titleText'' (uib_titleText w);
               tone = z_string_optional ''tone'' (uib_tone w);
               style = z_string_optional ''style'' (uib_style w);
               isFavorite = z_boolean_optional ''isFavorite'' (uib_isFavorite w);
               isSelected = z_boolean_optional ''isSelected'' (uib_isSelected w)
           in case Option.bind (snd id) (\<lambda>i.
                   Option.bind (snd sid) (\<lambda>s.
                   Option.bind (snd titleText) (\<lambda>tt.
                   Option.bind (snd tone) (\<lambda>t.
                   Option.bind (snd style) (\<lambda>st.
                   Option.bind (snd isFavorite) (\<lambda>f.
                   Option.bind (snd isSelected) (\<lambda>sel.
                     Some \<lparr>ui_id = i, ui_sessionId = s, ui_titleText = tt, ui_tone = t,
                           ui_style = st, ui_isFavorite = f, ui_isSelected = sel\<rparr>))))))) of
                None \<Rightarrow>
                  Inl (fst id @ fst sid @ fst titleText @ fst tone @ fst style @
                       fst isFavorite @ fst isSelected)
              | Some raw \<Rightarrow> updateTitleIdea_input raw))"

section \<open>The handlers\<close>

datatype response =
    SessionData "TitleSession option"
  | SessionItems "TitleSession list" nat
  | IdeaData "TitleIdea option"
  | IdeaItems "TitleIdea list" nat
  | Success

definition createTitleSession_handler ::
  "env \<Rightarrow> CreateTitleSessionInput \<Rightarrow> ActionAPIContext \<Rightarrow> db \<Rightarrow> response outcome" where
  "createTitleSession_handler e input context d =
     (case requireUser context of
        Inl err \<Rightarrow> (Inl err, d, [])
      | Inr u \<Rightarrow>
          (let row = \<lparr>ts_id = randomUUID e, ts_userId = user_id u,
                      ts_contentType = cs_contentType input,
                      ts_workingTitle = cs_workingTitle input,
                      ts_topic = cs_topic input,
                      ts_targetAudience = cs_targetAudience input,
                      ts_language = cs_language input,
                      ts_notes = cs_notes input,
                      ts_createdAt = now e, ts_updatedAt = now e\<rparr>
           in case insert_values ts_id row (TitleSessions d) of
                None \<Rightarrow> (Inl (ConstraintError TitleSessionsTable), d, [Insert TitleSessionsTable])
              | Some rows \<Rightarrow>
                  (Inr (SessionData (Some row)), d\<lparr>TitleSessions := rows\<rparr>,
                   [Insert TitleSessionsTable])))"

text \<open>The object given to \<open>set\<close>: a field is in it only when the input has it.\<close>

definition updateTitleSession_set :: "UpdateTitleSessionInput \<Rightarrow> date \<Rightarrow> TitleSession \<Rightarrow> TitleSession" where
  "updateTitleSession_set input t s =
     s\<lparr>ts_contentType := (case us_contentType input of None \<Rightarrow> ts_contentType s | Some v \<Rightarrow> Some v),
       ts_workingTitle := (case us_workingTitle input of None \<Rightarrow> ts_workingTitle s | Some v \<Rightarrow> Some v),
       ts_topic := (case us_topic input of None \<Rightarrow> ts_topic s | Some v \<Rightarrow> Some v),
       ts_targetAudience :=
         (case us_targetAudience input of None \<Rightarrow> ts_targetAudience s | Some v \<Rightarrow> Some v),
       ts_language := (case us_language input of None \<Rightarrow> ts_language s | Some v \<Rightarrow> Some v),
       ts_notes := (case us_notes input of None \<Rightarrow> ts_notes s | Some v \<Rightarrow> Some v),
       ts_updatedAt := t\<rparr>"

definition updateTitleSession_handler ::
  "env \<Rightarrow> UpdateTitleSessionInput \<Rightarrow> ActionAPIContext \<Rightarrow> db \<Rightarrow> response outcome" where
  "updateTitleSession_handler e input context d =
     (case requireUser context of
        Inl err \<Rightarrow> (Inl err, d, [])
      | Inr u \<Rightarrow>
          (case getOwnedSession (us_id input) (user_id u) d of
             Inl err \<Rightarrow> (Inl err, d, [Select TitleSessionsTable])
           | Inr owned \<Rightarrow>
               (let (rows, returning) =
                      update_where (\<lambda>s. ts_id s = us_id input)
                        (updateTitleSession_set input (now e)) (TitleSessions d)
                in (Inr (SessionData (first_row returning)), d\<lparr>TitleSessions := rows\<rparr>,
                    [Select TitleSessionsTable, Update TitleSessionsTable]))))"

definition listTitleSessions_handler ::
  "env \<Rightarrow> unit \<Rightarrow> ActionAPIContext \<Rightarrow> db \<Rightarrow> response outcome" where
  "listTitleSessions_handler e input context d =
     (case requireUser context of
        Inl err \<Rightarrow> (Inl err, d, [])
      | Inr u \<Rightarrow>
          (let sessions = filter (\<lambda>s. ts_userId s = user_id u) (TitleSessions d)
           in (Inr (SessionItems sessions (length sessions)), d, [Select TitleSessionsTable])))"

definition createTitleIdea_handler ::
  "env \<Rightarrow> CreateTitleIdeaInput \<Rightarrow> ActionAPIContext \<Rightarrow> db \<Rightarrow> response outcome" where
  "createTitleIdea_handler e input context d =
     (case requireUser context of
        Inl err \<Rightarrow> (Inl err, d, [])
      | Inr u \<Rightarrow>
          (case getOwnedSession (ci_sessionId input) (user_id u) d of
             Inl err \<Rightarrow> (Inl err, d, [Select TitleSessionsTable])
           | Inr owned \<Rightarrow>
               (let row = \<lparr>ti_id = randomUUID e, ti_sessionId = ci_sessionId input,
                           ti_titleText = ci_titleText input,
                           ti_tone = ci_tone input, ti_style = ci_style input,
                           ti_isFavorite = (case ci_isFavorite input of None \<Rightarrow> False | Some b \<Rightarrow> b),
                           ti_isSelected = (case ci_isSelected input of None \<Rightarrow> False | Some b \<Rightarrow> b),
                           ti_createdAt = now e\<rparr>
                in case insert_values ti_id row (TitleIdeas d) of
                     None \<Rightarrow>
                       (Inl (ConstraintError TitleIdeasTable), d,
                        [Select TitleSessionsTable, Insert TitleIdeasTable])
                   | Some rows \<Rightarrow>
                       (Inr (IdeaData (Some row)), d\<lparr>TitleIdeas := rows\<rparr>,
                        [Select TitleSessionsTable, Insert TitleIdeasTable]))))"

definition updateTitleIdea_set :: "UpdateTitleIdeaInput \<Rightarrow> TitleIdea \<Rightarrow> TitleIdea" where
  "updateTitleIdea_set input i =
     i\<lparr>ti_titleText := (case ui_titleText input of None \<Rightarrow> ti_titleText i | Some v \<Rightarrow> v),
       ti_tone := (case ui_tone input of None \<Rightarrow> ti_tone i | Some v \<Rightarrow> Some v),
       ti_style := (case ui_style input of None \<Rightarrow> ti_style i | Some v \<Rightarrow> Some v),
       ti_isFavorite := (case ui_isFavorite input of None \<Rightarrow> ti_isFavorite i | Some b \<Rightarrow> b),
       ti_isSelected := (case ui_isSelected input of None \<Rightarrow> ti_isSelected i | Some b \<Rightarrow> b)\<rparr>"

definition updateTitleIdea_handler ::
  "env \<Rightarrow> UpdateTitleIdeaInput \<Rightarrow> ActionAPIContext \<Rightarrow> db \<Rightarrow> response outcome" where
  "updateTitleIdea_handler e input context d =
     (case requireUser context of
        Inl err \<Rightarrow> (Inl err, d, [])
      | Inr u \<Rightarrow>
          (case getOwnedSession (ui_sessionId input) (user_id u) d of
             Inl err \<Rightarrow> (Inl err, d, [Select TitleSessionsTable])
           | Inr owned \<Rightarrow>
               (case first_row (filter (\<lambda>i. ti_id i = ui_id input \<and> ti_sessionId i = ui_sessionId input)
                                 (TitleIdeas d)) of
                  None \<Rightarrow>
                    (Inl (ActionError NOT_FOUND ''Title idea not found.''), d,
                     [Select TitleSessionsTable, Select TitleIdeasTable])
                | Some existing \<Rightarrow>
                    (let (rows, returning) =
                           update_where (\<lambda>i. ti_id i = ui_id input) (updateTitleIdea_set input)
                             (TitleIdeas d)
                     in (Inr (IdeaData (first_row returning)), d\<lparr>TitleIdeas := rows\<rparr>,
                         [Select TitleSessionsTable, Select TitleIdeasTable,
                          Update TitleIdeasTable])))))"

definition deleteTitleIdea_handler ::
  "env \<Rightarrow> DeleteTitleIdeaInput \<Rightarrow> ActionAPIContext \<Rightarrow> db \<Rightarrow> response outcome" where
  "deleteTitleIdea_handler e input context d =
     (case requireUser context of
        Inl err \<Rightarrow> (Inl err, d, [])
      | Inr u \<Rightarrow>
          (case getOwnedSession (di_sessionId input) (user_id u) d of
             Inl err \<Rightarrow> (Inl err, d, [Select TitleSessionsTable])
           | Inr owned \<Rightarrow>
               (let (rows, rowsAffected) =
                      delete_where (\<lambda>i. ti_id i = di_id input \<and> ti_sessionId i = di_sessionId input)
                        (TitleIdeas d)
                in if rowsAffected = 0
                   then (Inl (ActionError NOT_FOUND ''Title idea not found.''), d\<lparr>TitleIdeas := rows\<rparr>,
                         [Select TitleSessionsTable, Delete TitleIdeasTable rowsAffected])
                   else (Inr Success, d\<lparr>TitleIdeas := rows\<rparr>,
                         [Select TitleSessionsTable, Delete TitleIdeasTable rowsAffected]))))"

text \<open>
  \<open>listTitleIdeas\<close> collects its filters in a list, the session filter first, and
  selects the rows that satisfy all of them (\<open>and(...filters)\<close>).
\<close>

definition listTitleIdeas_filters :: "ListTitleIdeasParsed \<Rightarrow> (TitleIdea \<Rightarrow> bool) list" where
  "listTitleIdeas_filters input =
     [\<lambda>i. ti_sessionId i = sessionId input] @
     (if favoritesOnly input then [\<lambda>i. ti_isFavorite i = True] else []) @
     (if selectedOnly input then [\<lambda>i. ti_isSelected i = True] else [])"

definition listTitleIdeas_handler ::
  "env \<Rightarrow> ListTitleIdeasParsed \<Rightarrow> ActionAPIContext \<Rightarrow> db \<Rightarrow> response outcome" where
  "listTitleIdeas_handler e input context d =
     (case requireUser context of
        Inl err \<Rightarrow> (Inl err, d, [])
      | Inr u \<Rightarrow>
          (case getOwnedSession (sessionId input) (user_id u) d of
             Inl err \<Rightarrow> (Inl err, d, [Select TitleSessionsTable])
           | Inr owned \<Rightarrow>
               (let ideas = filter (\<lambda>i. list_all (\<lambda>f. f i) (listTitleIdeas_filters input)) (TitleIdeas d)
                in (Inr (IdeaItems ideas (length ideas)), d,
                    [Select TitleSessionsTable, Select TitleIdeasTable]))))"

section \<open>The seven actions\<close>

definition createTitleSession :: "env \<Rightarrow> CreateTitleSessionInput \<Rightarrow> ActionAPIContext \<Rightarrow> db \<Rightarrow> response outcome" where
  "createTitleSession = defineAction createTitleSession_input createTitleSession_handler"

definition updateTitleSession :: "env \<Rightarrow> UpdateTitleSessionInput \<Rightarrow> ActionAPIContext \<Rightarrow> db \<Rightarrow> response outcome" where
  "updateTitleSession = defineAction updateTitleSession_input updateTitleSession_handler"

definition listTitleSessions :: "env \<Rightarrow> unit \<Rightarrow> ActionAPIContext \<Rightarrow> db \<Rightarrow> response outcome" where
  "listTitleSessions = defineAction listTitleSessions_input listTitleSessions_handler"

definition createTitleIdea :: "env \<Rightarrow> CreateTitleIdeaInput \<Rightarrow> ActionAPIContext \<Rightarrow> db \<Rightarrow> response outcome" where
  "createTitleIdea = defineAction createTitleIdea_input createTitleIdea_handler"

definition updateTitleIdea :: "env \<Rightarrow> UpdateTitleIdeaInput \<Rightarrow> ActionAPIContext \<Rightarrow> db \<Rightarrow> response outcome" where
  "updateTitleIdea = defineAction updateTitleIdea_input updateTitleIdea_handler"

definition deleteTitleIdea :: "env \<Rightarrow> DeleteTitleIdeaInput \<Rightarrow> ActionAPIContext \<Rightarrow> db \<Rightarrow> response outcome" where
  "deleteTitleIdea = defineAction deleteTitleIdea_input deleteTitleIdea_handler"

definition listTitleIdeas :: "env \<Rightarrow> ListTitleIdeasInput \<Rightarrow> ActionAPIContext \<Rightarrow> db \<Rightarrow> response outcome" where
  "listTitleIdeas = defineAction listTitleIdeas_input listTitleIdeas_handler"

text \<open>The two update actions on a request body.\<close>

definition updateTitleSession_request ::
  "env \<Rightarrow> UpdateTitleSessionBody body \<Rightarrow> ActionAPIContext \<Rightarrow> db \<Rightarrow> response outcome" where
  "updateTitleSession_request = defineAction updateTitleSession_body updateTitleSession_handler"

definition updateTitleIdea_request ::
  "env \<Rightarrow> UpdateTitleIdeaBody body \<Rightarrow> ActionAPIContext \<Rightarrow> db \<Rightarrow> response outcome" where
  "updateTitleIdea_request = defineAction updateTitleIdea_body updateTitleIdea_handler"

text \<open>A call of the exported \<open>server\<close> object: one of the seven actions with its input.\<close>

datatype action =
    CreateTitleSession CreateTitleSessionInput
  | UpdateTitleSession UpdateTitleSessionInput
  | ListTitleSessions
  | CreateTitleIdea CreateTitleIdeaInput
  | UpdateTitleIdea UpdateTitleIdeaInput
  | DeleteTitleIdea DeleteTitleIdeaInput
  | ListTitleIdeas ListTitleIdeasInput

fun server :: "env \<Rightarrow> action \<Rightarrow> ActionAPIContext \<Rightarrow> db \<Rightarrow> response outcome" where
  "server e (CreateTitleSession raw) context d = createTitleSession e raw context d"
| "server e (UpdateTitleSession raw) context d = updateTitleSession e raw context d"
| "server e ListTitleSessions context d = listTitleSessions e () context d"
| "server e (CreateTitleIdea raw) context d = createTitleIdea e raw context d"
| "server e (UpdateTitleIdea raw) context d = updateTitleIdea e raw context d"
| "server e (DeleteTitleIdea raw) context d = deleteTitleIdea e raw context d"
| "server e (ListTitleIdeas raw) context d = listTitleIdeas e raw context d"

section \<open>Vocabulary of the properties\<close>

text \<open>The issues the action's schema reports on the input of a call.\<close>

definition issues_of :: "issue list + 'p \<Rightarrow> issue list" where
  "issues_of r = (case r of Inl issues \<Rightarrow> issues | Inr v \<Rightarrow> [])"

fun input_issues :: "action \<Rightarrow> issue list" where
  "input_issues (CreateTitleSession raw) = issues_of (createTitleSession_input raw)"
| "input_issues (UpdateTitleSession raw) = issues_of (updateTitleSession_input raw)"
| "input_issues ListTitleSessions = issues_of (listTitleSessions_input ())"
| "input_issues (CreateTitleIdea raw) = issues_of (createTitleIdea_input raw)"
| "input_issues (UpdateTitleIdea raw) = issues_of (updateTitleIdea_input raw)"
| "input_issues (DeleteTitleIdea raw) = issues_of (deleteTitleIdea_input raw)"
| "input_issues (ListTitleIdeas raw) = issues_of (listTitleIdeas_input raw)"

text \<open>The body that carries a typed input: an optional field is absent or has its value.\<close>

definition text_field :: "string option \<Rightarrow> field" where
  "text_field v = (case v of None \<Rightarrow> Absent | Some s \<Rightarrow> Text s)"

definition flag_field :: "bool option \<Rightarrow> field" where
  "flag_field v = (case v of None \<Rightarrow> Absent | Some b \<Rightarrow> Flag b)"

definition updateTitleSession_body_of :: "UpdateTitleSessionInput \<Rightarrow> UpdateTitleSessionBody body" where
  "updateTitleSession_body_of raw =
     Object \<lparr>usb_id = Text (us_id raw), usb_contentType = text_field (us_contentType raw),
             usb_workingTitle = text_field (us_workingTitle raw),
             usb_topic = text_field (us_topic raw),
             usb_targetAudience = text_field (us_targetAudience raw),
             usb_language = text_field (us_language raw),
             usb_notes = text_field (us_notes raw)\<rparr>"

definition updateTitleIdea_body_of :: "UpdateTitleIdeaInput \<Rightarrow> UpdateTitleIdeaBody body" where
  "updateTitleIdea_body_of raw =
     Object \<lparr>uib_id = Text (ui_id raw), uib_sessionId = Text (ui_sessionId raw),
             uib_titleText = text_field (ui_titleText raw), uib_tone = text_field (ui_tone raw),
             uib_style = text_field (ui_style raw),
             uib_isFavorite = flag_field (ui_isFavorite raw),
             uib_isSelected = flag_field (ui_isSelected raw)\<rparr>"


text \<open>The session an idea operation names; the session operations name none.\<close>

fun idea_sessionId :: "action \<Rightarrow> string option" where
  "idea_sessionId (CreateTitleIdea raw) = Some (ci_sessionId raw)"
| "idea_sessionId (UpdateTitleIdea raw) = Some (ui_sessionId raw)"
| "idea_sessionId (DeleteTitleIdea raw) = Some (di_sessionId raw)"
| "idea_sessionId (ListTitleIdeas raw) = Some (li_sessionId raw)"
| "idea_sessionId (CreateTitleSession raw) = None"
| "idea_sessionId (UpdateTitleSession raw) = None"
| "idea_sessionId ListTitleSessions = None"

fun is_deleteTitleIdea :: "action \<Rightarrow> bool" where
  "is_deleteTitleIdea (DeleteTitleIdea raw) = True"
| "is_deleteTitleIdea (CreateTitleSession raw) = False"
| "is_deleteTitleIdea (UpdateTitleSession raw) = False"
| "is_deleteTitleIdea ListTitleSessions = False"
| "is_deleteTitleIdea (CreateTitleIdea raw) = False"
| "is_deleteTitleIdea (UpdateTitleIdea raw) = False"
| "is_deleteTitleIdea (ListTitleIdeas raw) = False"

text \<open>
  The primary keys: no two rows of a table have the same \<open>id\<close>. Both tables declare
  \<open>id\<close> as their primary key, the store refuses an insert that would break it, and no
  update changes an \<open>id\<close>: it holds in every reachable store
  (lemma \<open>reachable_primary_keys\<close> below).
\<close>

definition primary_keys :: "db \<Rightarrow> bool" where
  "primary_keys d \<longleftrightarrow> distinct (map ts_id (TitleSessions d)) \<and> distinct (map ti_id (TitleIdeas d))"

definition empty_db :: db where
  "empty_db = \<lparr>TitleSessions = [], TitleIdeas = []\<rparr>"

text \<open>The stores the seven actions can produce from the empty store, whoever calls.\<close>

inductive reachable :: "db \<Rightarrow> bool" where
  reachable_empty: "reachable empty_db"
| reachable_step: "reachable d \<Longrightarrow> server e a context d = (r, d', tr) \<Longrightarrow> reachable d'"

subsection \<open>A small store to run the actions on\<close>

text \<open>
  Two signed-in users and a request without identity; a store where the first user owns
  one session with two ideas, the first of them a favourite.
\<close>

definition user_a :: ActionAPIContext where
  "user_a = \<lparr>locals = Some \<lparr>user = Some \<lparr>user_id = ''user-a''\<rparr>\<rparr>\<rparr>"

definition user_b :: ActionAPIContext where
  "user_b = \<lparr>locals = Some \<lparr>user = Some \<lparr>user_id = ''user-b''\<rparr>\<rparr>\<rparr>"

definition signed_out :: ActionAPIContext where
  "signed_out = \<lparr>locals = Some \<lparr>user = None\<rparr>\<rparr>"

definition session_S :: TitleSession where
  "session_S = \<lparr>ts_id = ''S'', ts_userId = ''user-a'', ts_contentType = Some ''blog'',
                 ts_workingTitle = None, ts_topic = Some ''tips'', ts_targetAudience = None,
                 ts_language = None, ts_notes = None, ts_createdAt = 100, ts_updatedAt = 100\<rparr>"

definition idea_I1 :: TitleIdea where
  "idea_I1 = \<lparr>ti_id = ''I1'', ti_sessionId = ''S'', ti_titleText = ''Top 10 Tips'',
               ti_tone = Some ''catchy'', ti_style = None, ti_isFavorite = True,
               ti_isSelected = False, ti_createdAt = 110\<rparr>"

definition idea_I2 :: TitleIdea where
  "idea_I2 = \<lparr>ti_id = ''I2'', ti_sessionId = ''S'', ti_titleText = ''Ten Tips'',
               ti_tone = None, ti_style = Some ''listicle'', ti_isFavorite = False,
               ti_isSelected = False, ti_createdAt = 120\<rparr>"

definition db_S :: db where
  "db_S = \<lparr>TitleSessions = [session_S], TitleIdeas = [idea_I1, idea_I2]\<rparr>"

definition env_1 :: env where
  "env_1 = \<lparr>randomUUID = ''I3'', now = 200\<rparr>"

section \<open>Auxiliary lemmas\<close>

lemma defineAction_Inr [simp]: "schema raw = Inr v \<Longrightarrow> defineAction schema handler e raw c d = handler e v c d"
  by (simp add: defineAction_def)

lemma defineAction_Inl [simp]: "schema raw = Inl is \<Longrightarrow> defineAction schema handler e raw c d = (Inl (ActionInputError is), d, [])"
  by (simp add: defineAction_def)

lemma parsed_nil [simp]: "parsed [] v = Inr v" by (simp add: parsed_def)

lemma issues_of_parsed [simp]: "issues_of (parsed is v) = is" by (auto simp: parsed_def issues_of_def)

lemma first_row_filter_None: "first_row (filter P xs) = None \<longleftrightarrow> (\<forall>x\<in>set xs. \<not> P x)"
  by (induction xs) auto

lemma first_row_Some_mem: "first_row xs = Some x \<Longrightarrow> x \<in> set xs"
  by (cases xs) auto

lemma getOwnedSession_none:
  "\<not> (\<exists>s\<in>set (TitleSessions d). ts_id s = sid \<and> ts_userId s = uid) \<Longrightarrow>
   getOwnedSession sid uid d = Inl (ActionError NOT_FOUND ''Title session not found.'')"
  using first_row_filter_None[of "\<lambda>s. ts_id s = sid \<and> ts_userId s = uid" "TitleSessions d"]
  by (simp add: getOwnedSession_def)

lemma getOwnedSession_some:
  "\<exists>s\<in>set (TitleSessions d). ts_id s = sid \<and> ts_userId s = uid \<Longrightarrow>
   \<exists>s. getOwnedSession sid uid d = Inr s"
  using first_row_filter_None[of "\<lambda>s. ts_id s = sid \<and> ts_userId s = uid" "TitleSessions d"]
  by (auto simp add: getOwnedSession_def split: option.splits)

lemma getOwnedSession_Inr:
  "getOwnedSession sid uid d = Inr s \<Longrightarrow> s \<in> set (TitleSessions d) \<and> ts_id s = sid \<and> ts_userId s = uid"
  using first_row_Some_mem[of "filter (\<lambda>s. ts_id s = sid \<and> ts_userId s = uid) (TitleSessions d)" s]
  by (auto simp add: getOwnedSession_def split: option.splits)

lemma parsed_Inr: "parsed is v = Inr w \<longleftrightarrow> is = [] \<and> w = v" by (auto simp: parsed_def)

lemma requireUser_None: "locals_user context = None \<Longrightarrow>
  requireUser context = Inl (ActionError UNAUTHORIZED ''You must be signed in to perform this action.'')"
  by (simp add: requireUser_def)

lemmas action_defs =
  createTitleSession_def updateTitleSession_def listTitleSessions_def createTitleIdea_def
  updateTitleIdea_def deleteTitleIdea_def listTitleIdeas_def

lemmas input_defs =
  createTitleSession_input_def updateTitleSession_input_def listTitleSessions_input_def
  createTitleIdea_input_def updateTitleIdea_input_def deleteTitleIdea_input_def
  listTitleIdeas_input_def

lemmas handler_defs =
  createTitleSession_handler_def updateTitleSession_handler_def listTitleSessions_handler_def
  createTitleIdea_handler_def updateTitleIdea_handler_def deleteTitleIdea_handler_def
  listTitleIdeas_handler_def

lemma server_unfold:
  "server e a context d =
     (if input_issues a = [] then
        (case a of
           CreateTitleSession raw \<Rightarrow> createTitleSession_handler e raw context d
         | UpdateTitleSession raw \<Rightarrow> updateTitleSession_handler e raw context d
         | ListTitleSessions \<Rightarrow> listTitleSessions_handler e () context d
         | CreateTitleIdea raw \<Rightarrow> createTitleIdea_handler e raw context d
         | UpdateTitleIdea raw \<Rightarrow> updateTitleIdea_handler e raw context d
         | DeleteTitleIdea raw \<Rightarrow> deleteTitleIdea_handler e raw context d
         | ListTitleIdeas raw \<Rightarrow> listTitleIdeas_handler e
             \<lparr>sessionId = li_sessionId raw,
              favoritesOnly = (case li_favoritesOnly raw of None \<Rightarrow> False | Some b \<Rightarrow> b),
              selectedOnly = (case li_selectedOnly raw of None \<Rightarrow> False | Some b \<Rightarrow> b)\<rparr> context d)
      else (Inl (ActionInputError (input_issues a)), d, []))"
  by (cases a) (auto simp add: action_defs input_defs defineAction_def parsed_def issues_of_def)

lemma filter_none_keeps:
  "filter w rows = [] \<Longrightarrow> filter (\<lambda>r. \<not> w r) rows = rows"
  by (induction rows) (auto split: if_splits)

lemma deleteTitleIdea_handler_error:
  assumes "deleteTitleIdea_handler e raw context d = (Inl err, d', tr)"
  shows "d' = d \<and> (filter is_write tr = [] \<or> filter is_write tr = [Delete TitleIdeasTable 0])"
proof (cases "requireUser context")
  case (Inl x)
  with assms show ?thesis by (simp add: deleteTitleIdea_handler_def)
next
  case (Inr u)
  note u = this
  show ?thesis
  proof (cases "getOwnedSession (di_sessionId raw) (user_id u) d")
    case (Inl x)
    with assms u show ?thesis by (auto simp add: deleteTitleIdea_handler_def)
  next
    case (Inr owned)
    let ?w = "\<lambda>i. ti_id i = di_id raw \<and> ti_sessionId i = di_sessionId raw"
    from assms u Inr have z: "filter ?w (TitleIdeas d) = []"
      by (simp add: deleteTitleIdea_handler_def delete_where_def split: if_splits)
    have "filter (\<lambda>r. \<not> ?w r) (TitleIdeas d) = TitleIdeas d"
      by (rule filter_none_keeps[OF z])
    with assms u Inr z show ?thesis
      by (auto simp add: deleteTitleIdea_handler_def delete_where_def)
  qed
qed

lemma other_handler_error:
  "createTitleSession_handler e r1 context d = (Inl err, d', tr) \<Longrightarrow>
     d' = d \<and> ((\<forall>t. err \<noteq> ConstraintError t) \<longrightarrow> filter is_write tr = [])"
  "updateTitleSession_handler e r2 context d = (Inl err, d', tr) \<Longrightarrow> d' = d \<and> filter is_write tr = []"
  "listTitleSessions_handler e r3 context d = (Inl err, d', tr) \<Longrightarrow> d' = d \<and> filter is_write tr = []"
  "createTitleIdea_handler e r4 context d = (Inl err, d', tr) \<Longrightarrow>
     d' = d \<and> ((\<forall>t. err \<noteq> ConstraintError t) \<longrightarrow> filter is_write tr = [])"
  "updateTitleIdea_handler e r5 context d = (Inl err, d', tr) \<Longrightarrow> d' = d \<and> filter is_write tr = []"
  "listTitleIdeas_handler e r7 context d = (Inl err, d', tr) \<Longrightarrow> d' = d \<and> filter is_write tr = []"
  by (auto simp: handler_defs Let_def update_where_def split: sum.splits option.splits if_splits)

lemma defineAction_success:
  "defineAction schema handler e raw c d = (Inr r, d', tr) \<Longrightarrow>
   \<exists>v. schema raw = Inr v \<and> handler e v c d = (Inr r, d', tr)"
  by (auto simp: defineAction_def split: sum.splits)

lemma distinct_key_index:
  "distinct (map key xs) \<Longrightarrow> i < length xs \<Longrightarrow> k < length xs \<Longrightarrow> key (xs ! i) = key (xs ! k) \<Longrightarrow> i = k"
  using nth_eq_iff_index_eq[of "map key xs" i k] by simp

lemma filter_key_single:
  "distinct (map key xs) \<Longrightarrow> x \<in> set xs \<Longrightarrow> filter (\<lambda>r. key r = key x) xs = [x]"
proof (induction xs)
  case Nil
  then show ?case by simp
next
  case (Cons y ys)
  show ?case
  proof (cases "key y = key x")
    case True
    with Cons.prems have "y = x" by (auto simp: image_iff)
    moreover from Cons.prems True have "filter (\<lambda>r. key r = key x) ys = []"
      by (auto simp: filter_empty_conv image_iff)
    ultimately show ?thesis by simp
  next
    case False
    with Cons show ?thesis by auto
  qed
qed

lemma map_key_update:
  assumes "distinct (map key xs)" and "k < length xs"
  shows "map (\<lambda>r. if key r = key (xs ! k) then f r else r) xs = xs[k := f (xs ! k)]"
proof (rule nth_equalityI)
  show "length (map (\<lambda>r. if key r = key (xs ! k) then f r else r) xs) = length (xs[k := f (xs ! k)])"
    by simp
next
  fix i assume "i < length (map (\<lambda>r. if key r = key (xs ! k) then f r else r) xs)"
  then have i: "i < length xs" by simp
  show "map (\<lambda>r. if key r = key (xs ! k) then f r else r) xs ! i = xs[k := f (xs ! k)] ! i"
  proof (cases "i = k")
    case True
    with i show ?thesis by simp
  next
    case False
    with distinct_key_index[OF assms(1) i assms(2)] have "key (xs ! i) \<noteq> key (xs ! k)" by blast
    with i False show ?thesis by simp
  qed
qed

lemma update_where_key:
  assumes "distinct (map key xs)" and "k < length xs" and "key (xs ! k) = v"
  shows "update_where (\<lambda>r. key r = v) f xs = (xs[k := f (xs ! k)], [f (xs ! k)])"
proof -
  have "xs ! k \<in> set xs" using assms(2) by simp
  from filter_key_single[OF assms(1) this] map_key_update[OF assms(1,2), of f] assms(3)
  show ?thesis by (simp add: update_where_def)
qed

lemma first_row_filter_Some:
  "first_row (filter P xs) = Some x \<Longrightarrow> x \<in> set xs \<and> P x"
  using first_row_Some_mem[of "filter P xs" x] by simp

lemmas sample_defs =
  user_a_def user_b_def signed_out_def session_S_def idea_I1_def idea_I2_def db_S_def env_1_def

lemma requireUser_user_a: "requireUser user_a = Inr \<lparr>user_id = ''user-a''\<rparr>"
  by (simp add: requireUser_def locals_user_def user_a_def)

lemma requireUser_user_b: "requireUser user_b = Inr \<lparr>user_id = ''user-b''\<rparr>"
  by (simp add: requireUser_def locals_user_def user_b_def)

lemma createTitleIdea_valid:
  assumes "createTitleIdea e raw context d = (Inr r, d', tr)"
  shows "createTitleIdea_handler e raw context d = (Inr r, d', tr) \<and> ci_sessionId raw \<noteq> [] \<and> ci_titleText raw \<noteq> []"
proof -
  from defineAction_success[of createTitleIdea_input createTitleIdea_handler e raw "context" d r d' tr]
    assms
  obtain v where v: "createTitleIdea_input raw = Inr v" "createTitleIdea_handler e v context d = (Inr r, d', tr)"
    unfolding createTitleIdea_def by blast
  from v(1) have "v = raw" "ci_sessionId raw \<noteq> []" "ci_titleText raw \<noteq> []"
    by (simp_all add: createTitleIdea_input_def parsed_Inr string_min1_def split: if_splits)
  with v(2) show ?thesis by simp
qed

lemma createTitleIdea_handler_success:
  assumes h: "createTitleIdea_handler e raw context d = (Inr r, d', tr)"
  shows "randomUUID e \<notin> set (map ti_id (TitleIdeas d)) \<and>
     r = IdeaData (Some \<lparr>ti_id = randomUUID e, ti_sessionId = ci_sessionId raw,
                ti_titleText = ci_titleText raw, ti_tone = ci_tone raw, ti_style = ci_style raw,
                ti_isFavorite = (case ci_isFavorite raw of None \<Rightarrow> False | Some b \<Rightarrow> b),
                ti_isSelected = (case ci_isSelected raw of None \<Rightarrow> False | Some b \<Rightarrow> b),
                ti_createdAt = now e\<rparr>) \<and>
     TitleIdeas d' = TitleIdeas d @ [\<lparr>ti_id = randomUUID e, ti_sessionId = ci_sessionId raw,
                ti_titleText = ci_titleText raw, ti_tone = ci_tone raw, ti_style = ci_style raw,
                ti_isFavorite = (case ci_isFavorite raw of None \<Rightarrow> False | Some b \<Rightarrow> b),
                ti_isSelected = (case ci_isSelected raw of None \<Rightarrow> False | Some b \<Rightarrow> b),
                ti_createdAt = now e\<rparr>] \<and>
     TitleSessions d' = TitleSessions d"
proof (cases "requireUser context")
  case (Inl x)
  with h show ?thesis by (simp add: createTitleIdea_handler_def)
next
  case (Inr u)
  note u = this
  show ?thesis
  proof (cases "getOwnedSession (ci_sessionId raw) (user_id u) d")
    case (Inl x)
    with h u show ?thesis by (simp add: createTitleIdea_handler_def)
  next
    case (Inr owned)
    show ?thesis
    proof (cases "randomUUID e \<in> set (map ti_id (TitleIdeas d))")
      case True
      with h u Inr show ?thesis
        by (simp add: createTitleIdea_handler_def insert_values_def)
    next
      case False
      with h u Inr show ?thesis
        by (auto simp add: createTitleIdea_handler_def insert_values_def Let_def)
    qed
  qed
qed

lemma filter_key_remove_length:
  "distinct (map key xs) \<Longrightarrow> x \<in> set xs \<Longrightarrow>
   length (filter P xs) = (if P x then Suc (length (filter P (filter (\<lambda>r. key r \<noteq> key x) xs)))
                           else length (filter P (filter (\<lambda>r. key r \<noteq> key x) xs)))"
proof (induction xs)
  case Nil
  then show ?case by simp
next
  case (Cons y ys)
  show ?case
  proof (cases "y = x")
    case True
    with Cons.prems have "\<forall>r\<in>set ys. key r \<noteq> key x" by (auto simp: image_iff)
    then have "filter (\<lambda>r. key r \<noteq> key x) ys = ys" by (simp add: filter_id_conv)
    with True show ?thesis by simp
  next
    case False
    with Cons.prems have "x \<in> set ys" "key y \<noteq> key x" "distinct (map key ys)" by (auto simp: image_iff)
    with Cons.IH show ?thesis by (simp split: if_splits)
  qed
qed

lemma listTitleIdeas_valid:
  "li_sessionId raw \<noteq> [] \<Longrightarrow>
   listTitleIdeas e raw context d =
     listTitleIdeas_handler e
       \<lparr>sessionId = li_sessionId raw,
        favoritesOnly = (case li_favoritesOnly raw of None \<Rightarrow> False | Some b \<Rightarrow> b),
        selectedOnly = (case li_selectedOnly raw of None \<Rightarrow> False | Some b \<Rightarrow> b)\<rparr> context d"
  by (simp add: listTitleIdeas_def listTitleIdeas_input_def string_min1_def)

lemma listTitleIdeas_handler_owned:
  assumes "requireUser context = Inr u"
    and "\<exists>s\<in>set (TitleSessions d). ts_id s = sessionId input \<and> ts_userId s = user_id u"
  shows "listTitleIdeas_handler e input context d =
     (Inr (IdeaItems
             (filter (\<lambda>i. ti_sessionId i = sessionId input \<and>
                          (favoritesOnly input \<longrightarrow> ti_isFavorite i) \<and>
                          (selectedOnly input \<longrightarrow> ti_isSelected i)) (TitleIdeas d))
             (length (filter (\<lambda>i. ti_sessionId i = sessionId input \<and>
                          (favoritesOnly input \<longrightarrow> ti_isFavorite i) \<and>
                          (selectedOnly input \<longrightarrow> ti_isSelected i)) (TitleIdeas d)))),
      d, [Select TitleSessionsTable, Select TitleIdeasTable])"
proof -
  from getOwnedSession_some[OF assms(2)] obtain s where
    s: "getOwnedSession (sessionId input) (user_id u) d = Inr s" by blast
  have f: "(\<lambda>i. list_all (\<lambda>f. f i) (listTitleIdeas_filters input))
        = (\<lambda>i. ti_sessionId i = sessionId input \<and>
                (favoritesOnly input \<longrightarrow> ti_isFavorite i) \<and>
                (selectedOnly input \<longrightarrow> ti_isSelected i))"
    by (auto simp: listTitleIdeas_filters_def fun_eq_iff)
  show ?thesis
    using assms(1) s by (simp add: listTitleIdeas_handler_def f Let_def)
qed

lemma filter_both_keys:
  assumes "distinct (map key xs)" and "x \<in> set xs" and "P x"
  shows "filter (\<lambda>r. key r = key x \<and> P r) xs = [x]"
    and "filter (\<lambda>r. \<not> (key r = key x \<and> P r)) xs = filter (\<lambda>r. key r \<noteq> key x) xs"
proof -
  have eq: "\<forall>r\<in>set xs. (key r = key x \<and> P r) = (key r = key x)"
  proof
    fix r assume r: "r \<in> set xs"
    show "(key r = key x \<and> P r) = (key r = key x)"
    proof (cases "key r = key x")
      case True
      with assms(1,2) r have "r = x" by (meson distinct_map inj_onD)
      with assms(3) True show ?thesis by simp
    next
      case False
      then show ?thesis by simp
    qed
  qed
  then have "filter (\<lambda>r. key r = key x \<and> P r) xs = filter (\<lambda>r. key r = key x) xs"
    by (intro filter_cong) auto
  with filter_key_single[OF assms(1,2)] show "filter (\<lambda>r. key r = key x \<and> P r) xs = [x]" by simp
  from eq show "filter (\<lambda>r. \<not> (key r = key x \<and> P r)) xs = filter (\<lambda>r. key r \<noteq> key x) xs"
    by (intro filter_cong) auto
qed

lemma deleteTitleIdea_valid:
  "di_id raw \<noteq> [] \<Longrightarrow> di_sessionId raw \<noteq> [] \<Longrightarrow>
   deleteTitleIdea e raw context d = deleteTitleIdea_handler e raw context d"
  by (simp add: deleteTitleIdea_def deleteTitleIdea_input_def defineAction_def string_min1_def)

lemma handlers_keep_primary_keys:
  assumes pk: "primary_keys d"
  shows "createTitleSession_handler e r1 context d = (r, d', tr) \<Longrightarrow> primary_keys d'"
    and "updateTitleSession_handler e r2 context d = (r, d', tr) \<Longrightarrow> primary_keys d'"
    and "listTitleSessions_handler e r3 context d = (r, d', tr) \<Longrightarrow> primary_keys d'"
    and "createTitleIdea_handler e r4 context d = (r, d', tr) \<Longrightarrow> primary_keys d'"
    and "updateTitleIdea_handler e r5 context d = (r, d', tr) \<Longrightarrow> primary_keys d'"
    and "deleteTitleIdea_handler e r6 context d = (r, d', tr) \<Longrightarrow> primary_keys d'"
    and "listTitleIdeas_handler e r7 context d = (r, d', tr) \<Longrightarrow> primary_keys d'"
proof -
  have s: "ts_id \<circ> (\<lambda>r. if ts_id r = us_id r2 then updateTitleSession_set r2 (now e) r else r) = ts_id"
    by (auto simp: fun_eq_iff updateTitleSession_set_def)
  have i: "ti_id \<circ> (\<lambda>r. if ti_id r = ui_id r5 then updateTitleIdea_set r5 r else r) = ti_id"
    by (auto simp: fun_eq_iff updateTitleIdea_set_def)
  show "createTitleSession_handler e r1 context d = (r, d', tr) \<Longrightarrow> primary_keys d'"
    using pk by (auto simp: createTitleSession_handler_def insert_values_def primary_keys_def Let_def
        split: sum.splits if_splits)
  show "updateTitleSession_handler e r2 context d = (r, d', tr) \<Longrightarrow> primary_keys d'"
    using pk by (auto simp: updateTitleSession_handler_def update_where_def primary_keys_def s
        split: sum.splits)
  show "listTitleSessions_handler e r3 context d = (r, d', tr) \<Longrightarrow> primary_keys d'"
    using pk by (auto simp: listTitleSessions_handler_def Let_def split: sum.splits)
  show "createTitleIdea_handler e r4 context d = (r, d', tr) \<Longrightarrow> primary_keys d'"
    using pk by (auto simp: createTitleIdea_handler_def insert_values_def primary_keys_def Let_def
        split: sum.splits if_splits)
  show "updateTitleIdea_handler e r5 context d = (r, d', tr) \<Longrightarrow> primary_keys d'"
    using pk by (auto simp: updateTitleIdea_handler_def update_where_def primary_keys_def i
        split: sum.splits option.splits)
  show "deleteTitleIdea_handler e r6 context d = (r, d', tr) \<Longrightarrow> primary_keys d'"
    using pk by (auto simp: deleteTitleIdea_handler_def delete_where_def primary_keys_def
        distinct_map_filter split: sum.splits if_splits)
  show "listTitleIdeas_handler e r7 context d = (r, d', tr) \<Longrightarrow> primary_keys d'"
    using pk by (auto simp: listTitleIdeas_handler_def Let_def split: sum.splits)
qed

lemma server_keeps_primary_keys:
  assumes "primary_keys d" and "server e a context d = (r, d', tr)"
  shows "primary_keys d'"
proof (cases "input_issues a = []")
  case False
  with assms show ?thesis by (simp add: server_unfold del: server.simps input_issues.simps)
next
  case True
  with assms(2) handlers_keep_primary_keys[OF assms(1)] show ?thesis
    by (cases a) (simp_all add: server_unfold)
qed

lemma reachable_primary_keys: "reachable d \<Longrightarrow> primary_keys d"
proof (induction rule: reachable.induct)
  case reachable_empty
  show ?case by (simp add: primary_keys_def empty_db_def)
next
  case (reachable_step d e a "context" r d' tr)
  then show ?case using server_keeps_primary_keys by blast
qed

lemmas run_defs =
  action_defs input_defs handler_defs defineAction_def parsed_def string_min1_def refine_def
  requireUser_def locals_user_def getOwnedSession_def insert_values_def update_where_def
  delete_where_def listTitleIdeas_filters_def updateTitleSession_set_def updateTitleIdea_set_def
  Let_def

lemma reachable_db_S: "reachable db_S"
proof -
  let ?d1 = "\<lparr>TitleSessions = [session_S], TitleIdeas = []\<rparr>"
  let ?d2 = "\<lparr>TitleSessions = [session_S], TitleIdeas = [idea_I1]\<rparr>"
  have 1: "server \<lparr>randomUUID = ''S'', now = 100\<rparr>
       (CreateTitleSession \<lparr>cs_contentType = Some ''blog'', cs_workingTitle = None,
          cs_topic = Some ''tips'', cs_targetAudience = None, cs_language = None,
          cs_notes = None\<rparr>) user_a empty_db
     = (Inr (SessionData (Some session_S)), ?d1, [Insert TitleSessionsTable])"
    by (simp add: run_defs user_a_def empty_db_def session_S_def)
  have 2: "server \<lparr>randomUUID = ''I1'', now = 110\<rparr>
       (CreateTitleIdea \<lparr>ci_sessionId = ''S'', ci_titleText = ''Top 10 Tips'',
          ci_tone = Some ''catchy'', ci_style = None, ci_isFavorite = Some True,
          ci_isSelected = None\<rparr>) user_a ?d1
     = (Inr (IdeaData (Some idea_I1)), ?d2, [Select TitleSessionsTable, Insert TitleIdeasTable])"
    by (simp add: run_defs user_a_def session_S_def idea_I1_def)
  have 3: "server \<lparr>randomUUID = ''I2'', now = 120\<rparr>
       (CreateTitleIdea \<lparr>ci_sessionId = ''S'', ci_titleText = ''Ten Tips'',
          ci_tone = None, ci_style = Some ''listicle'', ci_isFavorite = None,
          ci_isSelected = None\<rparr>) user_a ?d2
     = (Inr (IdeaData (Some idea_I2)), db_S, [Select TitleSessionsTable, Insert TitleIdeasTable])"
    by (simp add: run_defs user_a_def session_S_def idea_I1_def idea_I2_def db_S_def)
  from reachable_step[OF reachable_step[OF reachable_step[OF reachable_empty 1] 2] 3]
  show ?thesis .
qed

lemma primary_keys_db_S: "primary_keys db_S"
  by (rule reachable_primary_keys[OF reachable_db_S])

text \<open>
  On the body that carries a typed input, the schema of a request body is the typed
  schema, and the action on the body is the action on the typed input.
\<close>

lemma z_string_optional_text_field [simp]: "z_string_optional path (text_field v) = ([], Some v)"
  by (cases v) (simp_all add: text_field_def)

lemma z_boolean_optional_flag_field [simp]: "z_boolean_optional path (flag_field v) = ([], Some v)"
  by (cases v) (simp_all add: flag_field_def)

lemma updateTitleSession_body_typed:
  "updateTitleSession_body (updateTitleSession_body_of raw) = updateTitleSession_input raw"
  by (cases raw) (simp add: updateTitleSession_body_def updateTitleSession_body_of_def)

lemma updateTitleIdea_body_typed:
  "updateTitleIdea_body (updateTitleIdea_body_of raw) = updateTitleIdea_input raw"
  by (cases raw) (simp add: updateTitleIdea_body_def updateTitleIdea_body_of_def)

lemma update_requests_typed:
  "updateTitleSession_request e (updateTitleSession_body_of sraw) context d =
     updateTitleSession e sraw context d"
  "updateTitleIdea_request e (updateTitleIdea_body_of iraw) context d =
     updateTitleIdea e iraw context d"
  by (simp_all add: updateTitleSession_request_def updateTitleIdea_request_def
      updateTitleSession_def updateTitleIdea_def defineAction_def
      updateTitleSession_body_typed updateTitleIdea_body_typed)

section \<open>Properties\<close>

subsection \<open>Ownership of the session (C1)\<close>

text \<open>
  C1 as stated fails: the schema is checked before the ownership guard. The owner of
  session \<open>S\<close> updates an idea of a session \<open>T\<close> that does not exist and supplies no
  field to change: the call fails with the validation error, not with \<open>NOT_FOUND\<close>.
\<close>

theorem unowned_session_malformed_update_counterexample:
  "server env_1 (UpdateTitleIdea \<lparr>ui_id = ''I1'', ui_sessionId = ''T'', ui_titleText = None,
      ui_tone = None, ui_style = None, ui_isFavorite = None, ui_isSelected = None\<rparr>) user_a db_S
   = (Inl (ActionInputError [Custom ''At least one field must be provided to update.'']), db_S, [])"
  by (simp add: updateTitleIdea_def updateTitleIdea_input_def defineAction_def parsed_def
      string_min1_def refine_def)

text \<open>
  C1, as the code has it. An idea operation (create, update, delete, list) called by a
  signed-in user with an input that passes the action's schema, naming a session that no
  row of \<open>TitleSessions\<close> has with the caller as its owner, fails with \<open>NOT_FOUND\<close> and
  the message of the ownership guard. The condition does not tell a missing session from
  another user's, so both give the same failure. The store is unchanged and the only
  statement issued is the guard's select on \<open>TitleSessions\<close>: no idea is read or written.
\<close>

theorem idea_operation_session_not_owned:
  assumes "requireUser context = Inr u"
    and "input_issues a = []"
    and "idea_sessionId a = Some sid"
    and "\<not> (\<exists>s\<in>set (TitleSessions d). ts_id s = sid \<and> ts_userId s = user_id u)"
  shows "server e a context d =
     (Inl (ActionError NOT_FOUND ''Title session not found.''), d, [Select TitleSessionsTable])"
proof (cases a)
  case (CreateTitleIdea raw)
  with assms show ?thesis
    by (simp add: createTitleIdea_def createTitleIdea_input_def createTitleIdea_handler_def getOwnedSession_none)
next
  case (UpdateTitleIdea raw)
  with assms show ?thesis
    by (simp add: updateTitleIdea_def updateTitleIdea_input_def updateTitleIdea_handler_def getOwnedSession_none)
next
  case (DeleteTitleIdea raw)
  with assms show ?thesis
    by (simp add: deleteTitleIdea_def deleteTitleIdea_input_def deleteTitleIdea_handler_def getOwnedSession_none)
next
  case (ListTitleIdeas raw)
  with assms show ?thesis
    by (simp add: listTitleIdeas_def listTitleIdeas_input_def listTitleIdeas_handler_def getOwnedSession_none)
qed (use assms in simp_all)

text \<open>
  Deleting idea \<open>I1\<close>: the second user names the first user's session \<open>S\<close>, the first
  user names a session \<open>T\<close> that does not exist. The failures are the same.
\<close>

theorem idea_operation_session_not_owned_witness:
  "server env_1 (DeleteTitleIdea \<lparr>di_id = ''I1'', di_sessionId = ''S''\<rparr>) user_b db_S =
     (Inl (ActionError NOT_FOUND ''Title session not found.''), db_S, [Select TitleSessionsTable]) \<and>
   server env_1 (DeleteTitleIdea \<lparr>di_id = ''I1'', di_sessionId = ''T''\<rparr>) user_a db_S =
     (Inl (ActionError NOT_FOUND ''Title session not found.''), db_S, [Select TitleSessionsTable])"
proof (intro conjI)
  show "server env_1 (DeleteTitleIdea \<lparr>di_id = ''I1'', di_sessionId = ''S''\<rparr>) user_b db_S =
     (Inl (ActionError NOT_FOUND ''Title session not found.''), db_S, [Select TitleSessionsTable])"
  proof (rule idea_operation_session_not_owned[where u = "\<lparr>user_id = ''user-b''\<rparr>" and sid = "''S''"])
    show "requireUser user_b = Inr \<lparr>user_id = ''user-b''\<rparr>" by (rule requireUser_user_b)
    show "input_issues (DeleteTitleIdea \<lparr>di_id = ''I1'', di_sessionId = ''S''\<rparr>) = []"
      by (simp add: deleteTitleIdea_input_def string_min1_def issues_of_def)
    show "idea_sessionId (DeleteTitleIdea \<lparr>di_id = ''I1'', di_sessionId = ''S''\<rparr>) = Some ''S''"
      by simp
    show "\<not> (\<exists>s\<in>set (TitleSessions db_S). ts_id s = ''S'' \<and> ts_userId s = user_id \<lparr>user_id = ''user-b''\<rparr>)"
      by (simp add: db_S_def session_S_def)
  qed
  show "server env_1 (DeleteTitleIdea \<lparr>di_id = ''I1'', di_sessionId = ''T''\<rparr>) user_a db_S =
     (Inl (ActionError NOT_FOUND ''Title session not found.''), db_S, [Select TitleSessionsTable])"
  proof (rule idea_operation_session_not_owned[where u = "\<lparr>user_id = ''user-a''\<rparr>" and sid = "''T''"])
    show "requireUser user_a = Inr \<lparr>user_id = ''user-a''\<rparr>" by (rule requireUser_user_a)
    show "input_issues (DeleteTitleIdea \<lparr>di_id = ''I1'', di_sessionId = ''T''\<rparr>) = []"
      by (simp add: deleteTitleIdea_input_def string_min1_def issues_of_def)
    show "idea_sessionId (DeleteTitleIdea \<lparr>di_id = ''I1'', di_sessionId = ''T''\<rparr>) = Some ''T''"
      by simp
    show "\<not> (\<exists>s\<in>set (TitleSessions db_S). ts_id s = ''T'' \<and> ts_userId s = user_id \<lparr>user_id = ''user-a''\<rparr>)"
      by (simp add: db_S_def session_S_def)
  qed
qed

subsection \<open>Non-empty titles (C2)\<close>

text \<open>
  C2. The invariant fails on the code. \<open>createTitleIdea\<close> requires a title of at least
  one character, but the schema of \<open>updateTitleIdea\<close> declares \<open>titleText\<close> as an
  optional string without that bound. On the store reached by creating session \<open>S\<close> and
  ideas \<open>I1\<close> and \<open>I2\<close>, the owner's update of \<open>I1\<close> with the empty title succeeds and
  stores it.
\<close>

theorem updateTitleIdea_stores_empty_titleText:
  "reachable db_S \<and>
   server env_1 (UpdateTitleIdea \<lparr>ui_id = ''I1'', ui_sessionId = ''S'', ui_titleText = Some [],
       ui_tone = None, ui_style = None, ui_isFavorite = None, ui_isSelected = None\<rparr>) user_a db_S
   = (Inr (IdeaData (Some (idea_I1\<lparr>ti_titleText := []\<rparr>))),
      db_S\<lparr>TitleIdeas := [idea_I1\<lparr>ti_titleText := []\<rparr>, idea_I2]\<rparr>,
      [Select TitleSessionsTable, Select TitleIdeasTable, Update TitleIdeasTable])"
proof (intro conjI)
  show "reachable db_S" by (rule reachable_db_S)
  show "server env_1 (UpdateTitleIdea \<lparr>ui_id = ''I1'', ui_sessionId = ''S'', ui_titleText = Some [],
       ui_tone = None, ui_style = None, ui_isFavorite = None, ui_isSelected = None\<rparr>) user_a db_S
   = (Inr (IdeaData (Some (idea_I1\<lparr>ti_titleText := []\<rparr>))),
      db_S\<lparr>TitleIdeas := [idea_I1\<lparr>ti_titleText := []\<rparr>, idea_I2]\<rparr>,
      [Select TitleSessionsTable, Select TitleIdeasTable, Update TitleIdeasTable])"
    by (simp add: run_defs sample_defs)
qed

subsection \<open>Calls without identity (C3)\<close>

text \<open>
  C3 as stated fails: \<open>updateTitleIdea\<close> without identity and without a mutable field
  yields the validation error, not \<open>UNAUTHORIZED\<close>.
\<close>

theorem signed_out_malformed_update_counterexample:
  "server env_1 (UpdateTitleIdea \<lparr>ui_id = ''I1'', ui_sessionId = ''S'', ui_titleText = None,
      ui_tone = None, ui_style = None, ui_isFavorite = None, ui_isSelected = None\<rparr>) signed_out db_S
   = (Inl (ActionInputError [Custom ''At least one field must be provided to update.'']), db_S, [])"
  by (simp add: updateTitleIdea_def updateTitleIdea_input_def defineAction_def parsed_def
      string_min1_def refine_def)

text \<open>
  C3, as the code has it. The schema is checked before the handler is entered, and the
  handler checks the identity first. So a call without identity fails with
  \<open>UNAUTHORIZED\<close> when its input passes the schema, and with the schema's issues
  otherwise; in both cases the store is unchanged and no statement is issued.
\<close>

theorem signed_out_call_fails_without_store_access:
  assumes "locals_user context = None"
  shows "server e a context d =
     (if input_issues a = []
      then Inl (ActionError UNAUTHORIZED ''You must be signed in to perform this action.'')
      else Inl (ActionInputError (input_issues a)), d, [])"
  using requireUser_None[OF assms]
  by (cases a) (simp_all add: server_unfold handler_defs del: server.simps input_issues.simps)

text \<open>
  Without identity, a well-formed delete is \<open>UNAUTHORIZED\<close> and the creation of an idea
  with an empty title is a validation error.
\<close>

theorem signed_out_call_fails_without_store_access_witness:
  "locals_user signed_out = None \<and>
   server env_1 (DeleteTitleIdea \<lparr>di_id = ''I1'', di_sessionId = ''S''\<rparr>) signed_out db_S =
     (Inl (ActionError UNAUTHORIZED ''You must be signed in to perform this action.''), db_S, []) \<and>
   server env_1 (CreateTitleIdea \<lparr>ci_sessionId = ''S'', ci_titleText = [], ci_tone = None,
       ci_style = None, ci_isFavorite = None, ci_isSelected = None\<rparr>) signed_out db_S =
     (Inl (ActionInputError [TooSmall ''titleText'']), db_S, [])"
proof -
  have h: "locals_user signed_out = None" by (simp add: locals_user_def signed_out_def)
  have i: "input_issues (DeleteTitleIdea \<lparr>di_id = ''I1'', di_sessionId = ''S''\<rparr>) = []"
    "input_issues (CreateTitleIdea \<lparr>ci_sessionId = ''S'', ci_titleText = [], ci_tone = None,
       ci_style = None, ci_isFavorite = None, ci_isSelected = None\<rparr>) = [TooSmall ''titleText'']"
    by (simp_all add: deleteTitleIdea_input_def createTitleIdea_input_def string_min1_def
        issues_of_def parsed_def)
  from signed_out_call_fails_without_store_access[OF h, of env_1
      "DeleteTitleIdea \<lparr>di_id = ''I1'', di_sessionId = ''S''\<rparr>" db_S]
    signed_out_call_fails_without_store_access[OF h, of env_1
      "CreateTitleIdea \<lparr>ci_sessionId = ''S'', ci_titleText = [], ci_tone = None,
         ci_style = None, ci_isFavorite = None, ci_isSelected = None\<rparr>" db_S]
  show ?thesis unfolding i using h by simp
qed

subsection \<open>Updates without a field (C4)\<close>







subsection \<open>Frame of a session update (C5)\<close>

text \<open>
  C5. A successful \<open>updateTitleSession\<close>, on a store that respects the primary key,
  replaces exactly one row of \<open>TitleSessions\<close>: the caller's session with the given id.
  In the new row, which is also the row returned, every optional field present in the
  input has the supplied value and every absent one its prior value, \<open>updatedAt\<close> is the
  current time, and \<open>id\<close>, \<open>userId\<close> and \<open>createdAt\<close> are unchanged. All other
  sessions and all ideas are unchanged.
\<close>

theorem updateTitleSession_frame:
  assumes "updateTitleSession e raw context d = (Inr r, d', tr)"
    and "primary_keys d"
  shows "\<exists>u k old new.
      requireUser context = Inr u \<and> k < length (TitleSessions d) \<and> TitleSessions d ! k = old \<and>
      ts_id old = us_id raw \<and> ts_userId old = user_id u \<and>
      r = SessionData (Some new) \<and>
      TitleSessions d' = (TitleSessions d)[k := new] \<and> TitleIdeas d' = TitleIdeas d \<and>
      ts_id new = ts_id old \<and> ts_userId new = ts_userId old \<and>
      ts_createdAt new = ts_createdAt old \<and> ts_updatedAt new = now e \<and>
      ts_contentType new = (case us_contentType raw of None \<Rightarrow> ts_contentType old | Some v \<Rightarrow> Some v) \<and>
      ts_workingTitle new = (case us_workingTitle raw of None \<Rightarrow> ts_workingTitle old | Some v \<Rightarrow> Some v) \<and>
      ts_topic new = (case us_topic raw of None \<Rightarrow> ts_topic old | Some v \<Rightarrow> Some v) \<and>
      ts_targetAudience new =
        (case us_targetAudience raw of None \<Rightarrow> ts_targetAudience old | Some v \<Rightarrow> Some v) \<and>
      ts_language new = (case us_language raw of None \<Rightarrow> ts_language old | Some v \<Rightarrow> Some v) \<and>
      ts_notes new = (case us_notes raw of None \<Rightarrow> ts_notes old | Some v \<Rightarrow> Some v)"
proof -
  from assms(1) have h: "updateTitleSession_handler e raw context d = (Inr r, d', tr)"
    using defineAction_success[of updateTitleSession_input updateTitleSession_handler e raw "context" d r d' tr]
    by (auto simp add: updateTitleSession_def updateTitleSession_input_def parsed_Inr)
  then obtain u where u: "requireUser context = Inr u"
    by (cases "requireUser context") (simp_all add: updateTitleSession_handler_def)
  from h u obtain owned where o: "getOwnedSession (us_id raw) (user_id u) d = Inr owned"
    by (cases "getOwnedSession (us_id raw) (user_id u) d") (simp_all add: updateTitleSession_handler_def)
  from getOwnedSession_Inr[OF o] obtain k where
    k: "k < length (TitleSessions d)" "TitleSessions d ! k = owned"
       "ts_id owned = us_id raw" "ts_userId owned = user_id u"
    by (auto simp: in_set_conv_nth)
  from assms(2) have dist: "distinct (map ts_id (TitleSessions d))" by (simp add: primary_keys_def)
  let ?new = "updateTitleSession_set raw (now e) owned"
  from k have "ts_id (TitleSessions d ! k) = us_id raw" by simp
  from update_where_key[OF dist k(1) this, of "updateTitleSession_set raw (now e)"] k(2)
  have uw: "update_where (\<lambda>s. ts_id s = us_id raw) (updateTitleSession_set raw (now e)) (TitleSessions d)
      = ((TitleSessions d)[k := ?new], [?new])" by simp
  from h u o uw have res: "r = SessionData (Some ?new)" "d' = d\<lparr>TitleSessions := (TitleSessions d)[k := ?new]\<rparr>"
    by (simp_all add: updateTitleSession_handler_def)
  show ?thesis
    apply (rule exI[of _ u], rule exI[of _ k], rule exI[of _ owned], rule exI[of _ ?new])
    using u k res by (simp add: updateTitleSession_set_def)
qed

text \<open>The owner changes the topic of session \<open>S\<close> at time 200.\<close>

theorem updateTitleSession_frame_witness:
  "primary_keys db_S \<and>
   updateTitleSession env_1 \<lparr>us_id = ''S'', us_contentType = None, us_workingTitle = None,
      us_topic = Some ''titles'', us_targetAudience = None, us_language = None, us_notes = None\<rparr>
      user_a db_S =
     (Inr (SessionData (Some (session_S\<lparr>ts_topic := Some ''titles'', ts_updatedAt := 200\<rparr>))),
      db_S\<lparr>TitleSessions := [session_S\<lparr>ts_topic := Some ''titles'', ts_updatedAt := 200\<rparr>]\<rparr>,
      [Select TitleSessionsTable, Update TitleSessionsTable]) \<and>
   (\<exists>k old new. k < length (TitleSessions db_S) \<and> TitleSessions db_S ! k = old \<and>
      SessionData (Some (session_S\<lparr>ts_topic := Some ''titles'', ts_updatedAt := 200\<rparr>)) = SessionData (Some new) \<and>
      ts_createdAt new = ts_createdAt old \<and> ts_updatedAt new = now env_1 \<and>
      ts_notes new = ts_notes old \<and> ts_topic new = Some ''titles'')"
proof -
  let ?raw = "\<lparr>us_id = ''S'', us_contentType = None, us_workingTitle = None,
      us_topic = Some ''titles'', us_targetAudience = None, us_language = None, us_notes = None\<rparr>"
  have run: "updateTitleSession env_1 ?raw user_a db_S =
     (Inr (SessionData (Some (session_S\<lparr>ts_topic := Some ''titles'', ts_updatedAt := 200\<rparr>))),
      db_S\<lparr>TitleSessions := [session_S\<lparr>ts_topic := Some ''titles'', ts_updatedAt := 200\<rparr>]\<rparr>,
      [Select TitleSessionsTable, Update TitleSessionsTable])"
    by (simp add: run_defs sample_defs)
  from updateTitleSession_frame[OF run primary_keys_db_S]
  have "\<exists>k old new. k < length (TitleSessions db_S) \<and> TitleSessions db_S ! k = old \<and>
      SessionData (Some (session_S\<lparr>ts_topic := Some ''titles'', ts_updatedAt := 200\<rparr>)) = SessionData (Some new) \<and>
      ts_createdAt new = ts_createdAt old \<and> ts_updatedAt new = now env_1 \<and>
      ts_notes new = ts_notes old \<and> ts_topic new = Some ''titles''"
    by (elim exE conjE, intro exI conjI) simp_all
  with run primary_keys_db_S show ?thesis by blast
qed

subsection \<open>Frame of an idea update (C6)\<close>

text \<open>
  C6. A successful \<open>updateTitleIdea\<close>, on a store that respects the primary key,
  replaces exactly one row of \<open>TitleIdeas\<close>: the idea with the given id and session. In
  the new row, which is also the row returned, each of the five mutable fields has the
  supplied value when present and its prior value otherwise, and \<open>id\<close>, \<open>sessionId\<close>
  and \<open>createdAt\<close> are unchanged. All other ideas and all sessions are unchanged.
\<close>

theorem updateTitleIdea_frame:
  assumes "updateTitleIdea e raw context d = (Inr r, d', tr)"
    and "primary_keys d"
  shows "\<exists>k old new.
      k < length (TitleIdeas d) \<and> TitleIdeas d ! k = old \<and>
      ti_id old = ui_id raw \<and> ti_sessionId old = ui_sessionId raw \<and>
      r = IdeaData (Some new) \<and>
      TitleIdeas d' = (TitleIdeas d)[k := new] \<and> TitleSessions d' = TitleSessions d \<and>
      ti_id new = ti_id old \<and> ti_sessionId new = ti_sessionId old \<and>
      ti_createdAt new = ti_createdAt old \<and>
      ti_titleText new = (case ui_titleText raw of None \<Rightarrow> ti_titleText old | Some v \<Rightarrow> v) \<and>
      ti_tone new = (case ui_tone raw of None \<Rightarrow> ti_tone old | Some v \<Rightarrow> Some v) \<and>
      ti_style new = (case ui_style raw of None \<Rightarrow> ti_style old | Some v \<Rightarrow> Some v) \<and>
      ti_isFavorite new = (case ui_isFavorite raw of None \<Rightarrow> ti_isFavorite old | Some b \<Rightarrow> b) \<and>
      ti_isSelected new = (case ui_isSelected raw of None \<Rightarrow> ti_isSelected old | Some b \<Rightarrow> b)"
proof -
  from assms(1) have h: "updateTitleIdea_handler e raw context d = (Inr r, d', tr)"
    using defineAction_success[of updateTitleIdea_input updateTitleIdea_handler e raw "context" d r d' tr]
    by (auto simp add: updateTitleIdea_def updateTitleIdea_input_def parsed_Inr)
  then obtain u where u: "requireUser context = Inr u"
    by (cases "requireUser context") (simp_all add: updateTitleIdea_handler_def)
  from h u obtain owned where o: "getOwnedSession (ui_sessionId raw) (user_id u) d = Inr owned"
    by (cases "getOwnedSession (ui_sessionId raw) (user_id u) d") (simp_all add: updateTitleIdea_handler_def)
  let ?w = "\<lambda>i. ti_id i = ui_id raw \<and> ti_sessionId i = ui_sessionId raw"
  from h u o obtain existing where ex: "first_row (filter ?w (TitleIdeas d)) = Some existing"
    by (cases "first_row (filter ?w (TitleIdeas d))") (simp_all add: updateTitleIdea_handler_def)
  from first_row_filter_Some[OF ex] obtain k where
    k: "k < length (TitleIdeas d)" "TitleIdeas d ! k = existing"
       "ti_id existing = ui_id raw" "ti_sessionId existing = ui_sessionId raw"
    by (auto simp: in_set_conv_nth)
  from assms(2) have dist: "distinct (map ti_id (TitleIdeas d))" by (simp add: primary_keys_def)
  let ?new = "updateTitleIdea_set raw existing"
  from k have "ti_id (TitleIdeas d ! k) = ui_id raw" by simp
  from update_where_key[OF dist k(1) this, of "updateTitleIdea_set raw"] k(2)
  have uw: "update_where (\<lambda>i. ti_id i = ui_id raw) (updateTitleIdea_set raw) (TitleIdeas d)
      = ((TitleIdeas d)[k := ?new], [?new])" by simp
  from h u o ex uw have res: "r = IdeaData (Some ?new)" "d' = d\<lparr>TitleIdeas := (TitleIdeas d)[k := ?new]\<rparr>"
    by (simp_all add: updateTitleIdea_handler_def)
  show ?thesis
    apply (rule exI[of _ k], rule exI[of _ existing], rule exI[of _ ?new])
    using k res by (simp add: updateTitleIdea_set_def)
qed

text \<open>The owner marks idea \<open>I2\<close> as selected.\<close>

theorem updateTitleIdea_frame_witness:
  "primary_keys db_S \<and>
   updateTitleIdea env_1 \<lparr>ui_id = ''I2'', ui_sessionId = ''S'', ui_titleText = None,
      ui_tone = None, ui_style = None, ui_isFavorite = None, ui_isSelected = Some True\<rparr>
      user_a db_S =
     (Inr (IdeaData (Some (idea_I2\<lparr>ti_isSelected := True\<rparr>))),
      db_S\<lparr>TitleIdeas := [idea_I1, idea_I2\<lparr>ti_isSelected := True\<rparr>]\<rparr>,
      [Select TitleSessionsTable, Select TitleIdeasTable, Update TitleIdeasTable]) \<and>
   (\<exists>k old new. k < length (TitleIdeas db_S) \<and> TitleIdeas db_S ! k = old \<and>
      IdeaData (Some (idea_I2\<lparr>ti_isSelected := True\<rparr>)) = IdeaData (Some new) \<and>
      ti_createdAt new = ti_createdAt old \<and> ti_titleText new = ti_titleText old \<and>
      ti_isFavorite new = ti_isFavorite old \<and> ti_isSelected new = True)"
proof -
  let ?raw = "\<lparr>ui_id = ''I2'', ui_sessionId = ''S'', ui_titleText = None,
      ui_tone = None, ui_style = None, ui_isFavorite = None, ui_isSelected = Some True\<rparr>"
  have run: "updateTitleIdea env_1 ?raw user_a db_S =
     (Inr (IdeaData (Some (idea_I2\<lparr>ti_isSelected := True\<rparr>))),
      db_S\<lparr>TitleIdeas := [idea_I1, idea_I2\<lparr>ti_isSelected := True\<rparr>]\<rparr>,
      [Select TitleSessionsTable, Select TitleIdeasTable, Update TitleIdeasTable])"
    by (simp add: run_defs sample_defs)
  from updateTitleIdea_frame[OF run primary_keys_db_S]
  have "\<exists>k old new. k < length (TitleIdeas db_S) \<and> TitleIdeas db_S ! k = old \<and>
      IdeaData (Some (idea_I2\<lparr>ti_isSelected := True\<rparr>)) = IdeaData (Some new) \<and>
      ti_createdAt new = ti_createdAt old \<and> ti_titleText new = ti_titleText old \<and>
      ti_isFavorite new = ti_isFavorite old \<and> ti_isSelected new = True"
    by (elim exE conjE, intro exI conjI) simp_all
  with run primary_keys_db_S show ?thesis by blast
qed

subsection \<open>Listing ideas (C7)\<close>

text \<open>
  C7. For a signed-in caller who owns the session named by a schema-valid input,
  \<open>listTitleIdeas\<close> returns, in table order, exactly the ideas of that session that are
  favourites when \<open>favoritesOnly\<close> is true and selected when \<open>selectedOnly\<close> is true (a
  false or omitted flag adds no condition), with their number as the total. The store is
  unchanged.
\<close>

theorem listTitleIdeas_conjunctive_filters:
  assumes "requireUser context = Inr u"
    and "li_sessionId raw \<noteq> []"
    and "\<exists>s\<in>set (TitleSessions d). ts_id s = li_sessionId raw \<and> ts_userId s = user_id u"
  shows "listTitleIdeas e raw context d =
     (let items = filter (\<lambda>i. ti_sessionId i = li_sessionId raw \<and>
                              (li_favoritesOnly raw = Some True \<longrightarrow> ti_isFavorite i) \<and>
                              (li_selectedOnly raw = Some True \<longrightarrow> ti_isSelected i)) (TitleIdeas d)
      in (Inr (IdeaItems items (length items)), d, [Select TitleSessionsTable, Select TitleIdeasTable]))"
proof -
  let ?input = "\<lparr>sessionId = li_sessionId raw,
        favoritesOnly = (case li_favoritesOnly raw of None \<Rightarrow> False | Some b \<Rightarrow> b),
        selectedOnly = (case li_selectedOnly raw of None \<Rightarrow> False | Some b \<Rightarrow> b)\<rparr>"
  have flags: "favoritesOnly ?input = (li_favoritesOnly raw = Some True)"
    "selectedOnly ?input = (li_selectedOnly raw = Some True)"
    by (simp_all split: option.splits)
  from assms(3) have o: "\<exists>s\<in>set (TitleSessions d). ts_id s = sessionId ?input \<and> ts_userId s = user_id u"
    by simp
  show ?thesis
    unfolding listTitleIdeas_valid[OF assms(2)] listTitleIdeas_handler_owned[OF assms(1) o] flags
    by (simp add: Let_def)
qed

text \<open>
  Session \<open>S\<close> listed by its owner: favourites only, favourites that are also
  selected, and with a false flag.
\<close>

theorem listTitleIdeas_conjunctive_filters_witness:
  "listTitleIdeas env_1 \<lparr>li_sessionId = ''S'', li_favoritesOnly = Some True, li_selectedOnly = None\<rparr>
     user_a db_S =
     (Inr (IdeaItems [idea_I1] 1), db_S, [Select TitleSessionsTable, Select TitleIdeasTable]) \<and>
   listTitleIdeas env_1 \<lparr>li_sessionId = ''S'', li_favoritesOnly = Some True, li_selectedOnly = Some True\<rparr>
     user_a db_S =
     (Inr (IdeaItems [] 0), db_S, [Select TitleSessionsTable, Select TitleIdeasTable]) \<and>
   listTitleIdeas env_1 \<lparr>li_sessionId = ''S'', li_favoritesOnly = Some False, li_selectedOnly = None\<rparr>
     user_a db_S =
     (Inr (IdeaItems [idea_I1, idea_I2] 2), db_S, [Select TitleSessionsTable, Select TitleIdeasTable])"
proof -
  have o: "\<exists>s\<in>set (TitleSessions db_S). ts_id s = ''S'' \<and> ts_userId s = user_id \<lparr>user_id = ''user-a''\<rparr>"
    by (simp add: db_S_def session_S_def)
  have v: "''S'' \<noteq> []" by simp
  show ?thesis
    using listTitleIdeas_conjunctive_filters[OF requireUser_user_a,
        of "\<lparr>li_sessionId = ''S'', li_favoritesOnly = Some True, li_selectedOnly = None\<rparr>" db_S env_1]
      listTitleIdeas_conjunctive_filters[OF requireUser_user_a,
        of "\<lparr>li_sessionId = ''S'', li_favoritesOnly = Some True, li_selectedOnly = Some True\<rparr>" db_S env_1]
      listTitleIdeas_conjunctive_filters[OF requireUser_user_a,
        of "\<lparr>li_sessionId = ''S'', li_favoritesOnly = Some False, li_selectedOnly = None\<rparr>" db_S env_1]
      o
    by (simp add: Let_def db_S_def idea_I1_def idea_I2_def)
qed

subsection \<open>Deleting an idea (C8)\<close>

text \<open>
  C8 as stated fails in two places. The owner's delete with an empty id matches no idea
  (the stored ids are \<open>I1\<close> and \<open>I2\<close>), yet it fails with the validation error, not with
  \<open>NOT_FOUND\<close>. And after the owner deletes idea \<open>I2\<close>, which is not a favourite, the
  listing of the session's favourites has the total it had before, not one less.
\<close>

theorem deleteTitleIdea_empty_id_counterexample:
  "map ti_id (TitleIdeas db_S) = [''I1'', ''I2''] \<and>
   deleteTitleIdea env_1 \<lparr>di_id = [], di_sessionId = ''S''\<rparr> user_a db_S =
     (Inl (ActionInputError [TooSmall ''id'']), db_S, []) \<and>
   listTitleIdeas env_1 \<lparr>li_sessionId = ''S'', li_favoritesOnly = Some True, li_selectedOnly = None\<rparr>
     user_a db_S =
     (Inr (IdeaItems [idea_I1] 1), db_S, [Select TitleSessionsTable, Select TitleIdeasTable]) \<and>
   deleteTitleIdea env_1 \<lparr>di_id = ''I2'', di_sessionId = ''S''\<rparr> user_a db_S =
     (Inr Success, db_S\<lparr>TitleIdeas := [idea_I1]\<rparr>,
      [Select TitleSessionsTable, Delete TitleIdeasTable 1]) \<and>
   listTitleIdeas env_1 \<lparr>li_sessionId = ''S'', li_favoritesOnly = Some True, li_selectedOnly = None\<rparr>
     user_a (db_S\<lparr>TitleIdeas := [idea_I1]\<rparr>) =
     (Inr (IdeaItems [idea_I1] 1), db_S\<lparr>TitleIdeas := [idea_I1]\<rparr>,
      [Select TitleSessionsTable, Select TitleIdeasTable])"
  by (simp add: run_defs sample_defs)

text \<open>
  C8, as the code has it. For a signed-in caller who owns the session named by an input
  with a non-empty id and session id, on a store that respects the primary key: when no
  idea has both the given id and session, \<open>deleteTitleIdea\<close> fails with \<open>NOT_FOUND\<close> after
  a delete of zero rows and the store is unchanged; when there is one, the call succeeds,
  one row is deleted, no idea of the new store has the given id, every other idea and
  all sessions are kept, and a listing of the session's ideas in the new store has a
  total one less than in the old one when the deleted idea satisfied every flag of the
  listing that is true (so for every listing without a true flag), and the same total
  otherwise.
\<close>

theorem deleteTitleIdea_not_found_iff:
  assumes "requireUser context = Inr u"
    and "di_id raw \<noteq> []" and "di_sessionId raw \<noteq> []"
    and "\<exists>s\<in>set (TitleSessions d). ts_id s = di_sessionId raw \<and> ts_userId s = user_id u"
    and "primary_keys d"
  shows "if \<exists>i\<in>set (TitleIdeas d). ti_id i = di_id raw \<and> ti_sessionId i = di_sessionId raw
     then \<exists>d' x. x \<in> set (TitleIdeas d) \<and> ti_id x = di_id raw \<and>
            ti_sessionId x = di_sessionId raw \<and>
            deleteTitleIdea e raw context d =
              (Inr Success, d', [Select TitleSessionsTable, Delete TitleIdeasTable 1]) \<and>
            TitleIdeas d' = filter (\<lambda>i. ti_id i \<noteq> di_id raw) (TitleIdeas d) \<and>
            (\<forall>i\<in>set (TitleIdeas d'). ti_id i \<noteq> di_id raw) \<and>
            TitleSessions d' = TitleSessions d \<and>
            (\<forall>e1 e2 lraw. li_sessionId lraw = di_sessionId raw \<longrightarrow>
               (\<exists>before after.
                  listTitleIdeas e1 lraw context d =
                    (Inr (IdeaItems before (length before)), d,
                     [Select TitleSessionsTable, Select TitleIdeasTable]) \<and>
                  listTitleIdeas e2 lraw context d' =
                    (Inr (IdeaItems after (length after)), d',
                     [Select TitleSessionsTable, Select TitleIdeasTable]) \<and>
                  length before =
                    (if (li_favoritesOnly lraw = Some True \<longrightarrow> ti_isFavorite x) \<and>
                        (li_selectedOnly lraw = Some True \<longrightarrow> ti_isSelected x)
                     then Suc (length after) else length after)))
     else deleteTitleIdea e raw context d =
            (Inl (ActionError NOT_FOUND ''Title idea not found.''), d,
             [Select TitleSessionsTable, Delete TitleIdeasTable 0])"
proof -
  let ?w = "\<lambda>i. ti_id i = di_id raw \<and> ti_sessionId i = di_sessionId raw"
  from getOwnedSession_some[OF assms(4)] obtain s where
    s: "getOwnedSession (di_sessionId raw) (user_id u) d = Inr s" by blast
  have run: "deleteTitleIdea e raw context d =
      (let (rows, n) = delete_where ?w (TitleIdeas d)
       in if n = 0
          then (Inl (ActionError NOT_FOUND ''Title idea not found.''), d\<lparr>TitleIdeas := rows\<rparr>,
                [Select TitleSessionsTable, Delete TitleIdeasTable n])
          else (Inr Success, d\<lparr>TitleIdeas := rows\<rparr>,
                [Select TitleSessionsTable, Delete TitleIdeasTable n]))"
    using assms(1) s by (simp add: deleteTitleIdea_valid[OF assms(2,3)] deleteTitleIdea_handler_def)
  show ?thesis
  proof (cases "\<exists>i\<in>set (TitleIdeas d). ?w i")
    case False
    then have z: "filter ?w (TitleIdeas d) = []" by (simp add: filter_empty_conv)
    have "filter (\<lambda>r. \<not> ?w r) (TitleIdeas d) = TitleIdeas d" by (rule filter_none_keeps[OF z])
    with z False show ?thesis by (simp add: run delete_where_def)
  next
    case True
    then obtain x where x: "x \<in> set (TitleIdeas d)" "ti_id x = di_id raw" "ti_sessionId x = di_sessionId raw"
      by blast
    from assms(5) have dist: "distinct (map ti_id (TitleIdeas d))" by (simp add: primary_keys_def)
    from filter_both_keys[OF dist x(1), of "\<lambda>i. ti_sessionId i = di_sessionId raw"] x(2,3)
    have f1: "filter ?w (TitleIdeas d) = [x]"
      and f2: "filter (\<lambda>r. \<not> ?w r) (TitleIdeas d) = filter (\<lambda>i. ti_id i \<noteq> di_id raw) (TitleIdeas d)"
      by simp_all
    let ?d' = "d\<lparr>TitleIdeas := filter (\<lambda>i. ti_id i \<noteq> di_id raw) (TitleIdeas d)\<rparr>"
    from f2 have f3: "filter (\<lambda>r. ti_id r = di_id raw \<longrightarrow> ti_sessionId r \<noteq> di_sessionId raw) (TitleIdeas d)
        = filter (\<lambda>i. ti_id i \<noteq> di_id raw) (TitleIdeas d)" by simp
    have r: "deleteTitleIdea e raw context d =
        (Inr Success, ?d', [Select TitleSessionsTable, Delete TitleIdeasTable 1])"
      by (simp add: run delete_where_def f1 f3)
    have lists: "\<exists>before after.
        listTitleIdeas e1 lraw context d =
          (Inr (IdeaItems before (length before)), d,
           [Select TitleSessionsTable, Select TitleIdeasTable]) \<and>
        listTitleIdeas e2 lraw context ?d' =
          (Inr (IdeaItems after (length after)), ?d',
           [Select TitleSessionsTable, Select TitleIdeasTable]) \<and>
        length before =
          (if (li_favoritesOnly lraw = Some True \<longrightarrow> ti_isFavorite x) \<and>
              (li_selectedOnly lraw = Some True \<longrightarrow> ti_isSelected x)
           then Suc (length after) else length after)"
      if l: "li_sessionId lraw = di_sessionId raw" for e1 e2 lraw
    proof -
      let ?input = "\<lparr>sessionId = li_sessionId lraw,
            favoritesOnly = (case li_favoritesOnly lraw of None \<Rightarrow> False | Some b \<Rightarrow> b),
            selectedOnly = (case li_selectedOnly lraw of None \<Rightarrow> False | Some b \<Rightarrow> b)\<rparr>"
      let ?P = "\<lambda>i. ti_sessionId i = sessionId ?input \<and>
                  (favoritesOnly ?input \<longrightarrow> ti_isFavorite i) \<and>
                  (selectedOnly ?input \<longrightarrow> ti_isSelected i)"
      from l assms(3) have v: "li_sessionId lraw \<noteq> []" by simp
      from l assms(4) have o: "\<exists>s\<in>set (TitleSessions d). ts_id s = sessionId ?input \<and> ts_userId s = user_id u"
        by simp
      then have o': "\<exists>s\<in>set (TitleSessions ?d'). ts_id s = sessionId ?input \<and> ts_userId s = user_id u"
        by simp
      from l x have Px: "?P x = ((li_favoritesOnly lraw = Some True \<longrightarrow> ti_isFavorite x) \<and>
                                (li_selectedOnly lraw = Some True \<longrightarrow> ti_isSelected x))"
        by (auto split: option.splits)
      from filter_key_remove_length[OF dist x(1), of ?P] x(2)
      have len: "length (filter ?P (TitleIdeas d)) =
                 (if ?P x then Suc (length (filter ?P (filter (\<lambda>i. ti_id i \<noteq> di_id raw) (TitleIdeas d))))
                  else length (filter ?P (filter (\<lambda>i. ti_id i \<noteq> di_id raw) (TitleIdeas d))))"
        by simp
      have after: "TitleIdeas ?d' = filter (\<lambda>i. ti_id i \<noteq> di_id raw) (TitleIdeas d)" by simp
      show ?thesis
        apply (rule exI[of _ "filter ?P (TitleIdeas d)"])
        apply (rule exI[of _ "filter ?P (TitleIdeas ?d')"])
        unfolding listTitleIdeas_valid[OF v] listTitleIdeas_handler_owned[OF assms(1) o]
          listTitleIdeas_handler_owned[OF assms(1) o'] after len Px
        by simp
    qed
    then have L: "\<forall>e1 e2 lraw. li_sessionId lraw = di_sessionId raw \<longrightarrow>
        (\<exists>before after.
          listTitleIdeas e1 lraw context d =
            (Inr (IdeaItems before (length before)), d,
             [Select TitleSessionsTable, Select TitleIdeasTable]) \<and>
          listTitleIdeas e2 lraw context ?d' =
            (Inr (IdeaItems after (length after)), ?d',
             [Select TitleSessionsTable, Select TitleIdeasTable]) \<and>
          length before =
            (if (li_favoritesOnly lraw = Some True \<longrightarrow> ti_isFavorite x) \<and>
                (li_selectedOnly lraw = Some True \<longrightarrow> ti_isSelected x)
             then Suc (length after) else length after))"
      by blast
    have gone: "\<forall>i\<in>set (TitleIdeas ?d'). ti_id i \<noteq> di_id raw" by simp
    have kept: "TitleSessions ?d' = TitleSessions d" by simp
    have after: "TitleIdeas ?d' = filter (\<lambda>i. ti_id i \<noteq> di_id raw) (TitleIdeas d)" by simp
    show ?thesis
      unfolding if_P[OF True]
      by (intro exI[of _ ?d'] exI[of _ x] conjI x r after gone kept L)
  qed
qed

text \<open>
  The owner deletes idea \<open>I2\<close> of session \<open>S\<close>, which is not a favourite: the total of
  the session's ideas goes from two to one, the total of its favourites stays the same.
  Deleting an idea \<open>I9\<close> that is not there is \<open>NOT_FOUND\<close>.
\<close>

theorem deleteTitleIdea_not_found_iff_witness:
  "primary_keys db_S \<and>
   (\<exists>d'. deleteTitleIdea env_1 \<lparr>di_id = ''I2'', di_sessionId = ''S''\<rparr> user_a db_S =
           (Inr Success, d', [Select TitleSessionsTable, Delete TitleIdeasTable 1]) \<and>
         TitleIdeas d' = [idea_I1] \<and>
         (\<exists>before after.
            listTitleIdeas env_1 \<lparr>li_sessionId = ''S'', li_favoritesOnly = None, li_selectedOnly = None\<rparr>
              user_a db_S =
              (Inr (IdeaItems before (Suc (length after))), db_S,
               [Select TitleSessionsTable, Select TitleIdeasTable]) \<and>
            listTitleIdeas env_1 \<lparr>li_sessionId = ''S'', li_favoritesOnly = None, li_selectedOnly = None\<rparr>
              user_a d' =
              (Inr (IdeaItems after (length after)), d',
               [Select TitleSessionsTable, Select TitleIdeasTable])) \<and>
         (\<exists>before after.
            listTitleIdeas env_1 \<lparr>li_sessionId = ''S'', li_favoritesOnly = Some True, li_selectedOnly = None\<rparr>
              user_a db_S =
              (Inr (IdeaItems before (length after)), db_S,
               [Select TitleSessionsTable, Select TitleIdeasTable]) \<and>
            listTitleIdeas env_1 \<lparr>li_sessionId = ''S'', li_favoritesOnly = Some True, li_selectedOnly = None\<rparr>
              user_a d' =
              (Inr (IdeaItems after (length after)), d',
               [Select TitleSessionsTable, Select TitleIdeasTable]))) \<and>
   deleteTitleIdea env_1 \<lparr>di_id = ''I9'', di_sessionId = ''S''\<rparr> user_a db_S =
     (Inl (ActionError NOT_FOUND ''Title idea not found.''), db_S,
      [Select TitleSessionsTable, Delete TitleIdeasTable 0])"
proof -
  let ?raw = "\<lparr>di_id = ''I2'', di_sessionId = ''S''\<rparr>"
  let ?raw9 = "\<lparr>di_id = ''I9'', di_sessionId = ''S''\<rparr>"
  let ?l = "\<lparr>li_sessionId = ''S'', li_favoritesOnly = None, li_selectedOnly = None\<rparr>"
  let ?f = "\<lparr>li_sessionId = ''S'', li_favoritesOnly = Some True, li_selectedOnly = None\<rparr>"
  have o: "\<exists>s\<in>set (TitleSessions db_S). ts_id s = di_sessionId ?raw \<and> ts_userId s = user_id \<lparr>user_id = ''user-a''\<rparr>"
    and o9: "\<exists>s\<in>set (TitleSessions db_S). ts_id s = di_sessionId ?raw9 \<and> ts_userId s = user_id \<lparr>user_id = ''user-a''\<rparr>"
    by (simp_all add: db_S_def session_S_def)
  have v: "di_id ?raw \<noteq> []" "di_sessionId ?raw \<noteq> []" "di_id ?raw9 \<noteq> []" "di_sessionId ?raw9 \<noteq> []"
    by simp_all
  have ex: "\<exists>i\<in>set (TitleIdeas db_S). ti_id i = di_id ?raw \<and> ti_sessionId i = di_sessionId ?raw"
    by (simp add: db_S_def idea_I1_def idea_I2_def)
  have nex: "\<not> (\<exists>i\<in>set (TitleIdeas db_S). ti_id i = di_id ?raw9 \<and> ti_sessionId i = di_sessionId ?raw9)"
    by (simp add: db_S_def idea_I1_def idea_I2_def)
  from deleteTitleIdea_not_found_iff[OF requireUser_user_a v(1,2) o primary_keys_db_S, of env_1] ex
  obtain d' x where d':
    "x \<in> set (TitleIdeas db_S)" "ti_id x = di_id ?raw"
    "deleteTitleIdea env_1 ?raw user_a db_S =
       (Inr Success, d', [Select TitleSessionsTable, Delete TitleIdeasTable 1])"
    "TitleIdeas d' = filter (\<lambda>i. ti_id i \<noteq> di_id ?raw) (TitleIdeas db_S)"
    "\<forall>e1 e2 lraw. li_sessionId lraw = di_sessionId ?raw \<longrightarrow>
       (\<exists>before after.
          listTitleIdeas e1 lraw user_a db_S =
            (Inr (IdeaItems before (length before)), db_S,
             [Select TitleSessionsTable, Select TitleIdeasTable]) \<and>
          listTitleIdeas e2 lraw user_a d' =
            (Inr (IdeaItems after (length after)), d',
             [Select TitleSessionsTable, Select TitleIdeasTable]) \<and>
          length before =
            (if (li_favoritesOnly lraw = Some True \<longrightarrow> ti_isFavorite x) \<and>
                (li_selectedOnly lraw = Some True \<longrightarrow> ti_isSelected x)
             then Suc (length after) else length after))"
    by (simp only: if_True) blast
  from d'(1,2) have x: "x = idea_I2" by (auto simp: db_S_def idea_I1_def idea_I2_def)
  from d'(4) have ideas: "TitleIdeas d' = [idea_I1]"
    by (simp add: db_S_def idea_I1_def idea_I2_def)
  have yes: "(li_favoritesOnly ?l = Some True \<longrightarrow> ti_isFavorite x) \<and>
             (li_selectedOnly ?l = Some True \<longrightarrow> ti_isSelected x)"
    by simp
  have sl: "li_sessionId ?l = di_sessionId ?raw" by simp
  from d'(5) sl obtain lb la where lf:
    "listTitleIdeas env_1 ?l user_a db_S =
       (Inr (IdeaItems lb (length lb)), db_S, [Select TitleSessionsTable, Select TitleIdeasTable])"
    "listTitleIdeas env_1 ?l user_a d' =
       (Inr (IdeaItems la (length la)), d', [Select TitleSessionsTable, Select TitleIdeasTable])"
    "length lb = (if (li_favoritesOnly ?l = Some True \<longrightarrow> ti_isFavorite x) \<and>
                     (li_selectedOnly ?l = Some True \<longrightarrow> ti_isSelected x)
                  then Suc (length la) else length la)"
    by blast
  from lf(3) yes have "length lb = Suc (length la)" by simp
  with lf(1,2) have all: "\<exists>before after.
          listTitleIdeas env_1 ?l user_a db_S =
            (Inr (IdeaItems before (Suc (length after))), db_S,
             [Select TitleSessionsTable, Select TitleIdeasTable]) \<and>
          listTitleIdeas env_1 ?l user_a d' =
            (Inr (IdeaItems after (length after)), d',
             [Select TitleSessionsTable, Select TitleIdeasTable])"
    by (intro exI[of _ lb] exI[of _ la]) simp
  have nf: "\<not> ((li_favoritesOnly ?f = Some True \<longrightarrow> ti_isFavorite x) \<and>
                (li_selectedOnly ?f = Some True \<longrightarrow> ti_isSelected x))"
    by (simp add: x idea_I2_def)
  have sf: "li_sessionId ?f = di_sessionId ?raw" by simp
  from d'(5) sf obtain fb fa where ff:
    "listTitleIdeas env_1 ?f user_a db_S =
       (Inr (IdeaItems fb (length fb)), db_S, [Select TitleSessionsTable, Select TitleIdeasTable])"
    "listTitleIdeas env_1 ?f user_a d' =
       (Inr (IdeaItems fa (length fa)), d', [Select TitleSessionsTable, Select TitleIdeasTable])"
    "length fb = (if (li_favoritesOnly ?f = Some True \<longrightarrow> ti_isFavorite x) \<and>
                     (li_selectedOnly ?f = Some True \<longrightarrow> ti_isSelected x)
                  then Suc (length fa) else length fa)"
    by blast
  from ff(3) nf have "length fb = length fa" by (simp only: if_False)
  with ff(1,2) have favs: "\<exists>before after.
          listTitleIdeas env_1 ?f user_a db_S =
            (Inr (IdeaItems before (length after)), db_S,
             [Select TitleSessionsTable, Select TitleIdeasTable]) \<and>
          listTitleIdeas env_1 ?f user_a d' =
            (Inr (IdeaItems after (length after)), d',
             [Select TitleSessionsTable, Select TitleIdeasTable])"
    by (intro exI[of _ fb] exI[of _ fa]) simp
  from deleteTitleIdea_not_found_iff[OF requireUser_user_a v(3,4) o9 primary_keys_db_S, of env_1] nex
  have nf9: "deleteTitleIdea env_1 ?raw9 user_a db_S =
     (Inl (ActionError NOT_FOUND ''Title idea not found.''), db_S,
      [Select TitleSessionsTable, Delete TitleIdeasTable 0])"
    by (simp only: if_False)
  from d'(3) ideas all favs nf9 primary_keys_db_S show ?thesis by blast
qed

subsection \<open>Creating an idea (C9)\<close>

text \<open>
  C9. A successful \<open>createTitleIdea\<close> returns an idea whose id is the generated one,
  used by no idea already stored, with the supplied session id and title (which is not
  empty), the supplied tone and style (absent when not supplied), the supplied flags
  (false when omitted) and the current time as \<open>createdAt\<close>. The row appended to
  \<open>TitleIdeas\<close> is the idea returned, and nothing else in the store changes.
\<close>

theorem createTitleIdea_result:
  assumes "createTitleIdea e raw context d = (Inr r, d', tr)"
  shows "\<exists>idea. r = IdeaData (Some idea) \<and>
      ti_id idea = randomUUID e \<and> randomUUID e \<notin> set (map ti_id (TitleIdeas d)) \<and>
      ti_sessionId idea = ci_sessionId raw \<and>
      ti_titleText idea = ci_titleText raw \<and> ci_titleText raw \<noteq> [] \<and>
      ti_tone idea = ci_tone raw \<and> ti_style idea = ci_style raw \<and>
      ti_isFavorite idea = (case ci_isFavorite raw of None \<Rightarrow> False | Some b \<Rightarrow> b) \<and>
      ti_isSelected idea = (case ci_isSelected raw of None \<Rightarrow> False | Some b \<Rightarrow> b) \<and>
      ti_createdAt idea = now e \<and>
      TitleIdeas d' = TitleIdeas d @ [idea] \<and> TitleSessions d' = TitleSessions d"
proof -
  from createTitleIdea_valid[OF assms]
  have h: "createTitleIdea_handler e raw context d = (Inr r, d', tr)" and t: "ci_titleText raw \<noteq> []"
    by simp_all
  let ?row = "\<lparr>ti_id = randomUUID e, ti_sessionId = ci_sessionId raw,
                ti_titleText = ci_titleText raw, ti_tone = ci_tone raw, ti_style = ci_style raw,
                ti_isFavorite = (case ci_isFavorite raw of None \<Rightarrow> False | Some b \<Rightarrow> b),
                ti_isSelected = (case ci_isSelected raw of None \<Rightarrow> False | Some b \<Rightarrow> b),
                ti_createdAt = now e\<rparr>"
  show ?thesis
    apply (rule exI[of _ ?row])
    using createTitleIdea_handler_success[OF h] t by simp
qed

text \<open>The owner adds a third idea to session \<open>S\<close>, selected and with no favourite flag.\<close>

theorem createTitleIdea_result_witness:
  "createTitleIdea env_1 \<lparr>ci_sessionId = ''S'', ci_titleText = ''Tips That Work'', ci_tone = None,
      ci_style = Some ''how-to'', ci_isFavorite = None, ci_isSelected = Some True\<rparr> user_a db_S =
     (Inr (IdeaData (Some \<lparr>ti_id = ''I3'', ti_sessionId = ''S'', ti_titleText = ''Tips That Work'',
             ti_tone = None, ti_style = Some ''how-to'', ti_isFavorite = False,
             ti_isSelected = True, ti_createdAt = 200\<rparr>)),
      db_S\<lparr>TitleIdeas := [idea_I1, idea_I2,
             \<lparr>ti_id = ''I3'', ti_sessionId = ''S'', ti_titleText = ''Tips That Work'',
              ti_tone = None, ti_style = Some ''how-to'', ti_isFavorite = False,
              ti_isSelected = True, ti_createdAt = 200\<rparr>]\<rparr>,
      [Select TitleSessionsTable, Insert TitleIdeasTable]) \<and>
   (\<exists>idea. ti_id idea = randomUUID env_1 \<and> randomUUID env_1 \<notin> set (map ti_id (TitleIdeas db_S)) \<and>
      ti_isFavorite idea = False \<and> ti_isSelected idea = True \<and> ti_createdAt idea = now env_1 \<and>
      TitleIdeas (db_S\<lparr>TitleIdeas := [idea_I1, idea_I2,
             \<lparr>ti_id = ''I3'', ti_sessionId = ''S'', ti_titleText = ''Tips That Work'',
              ti_tone = None, ti_style = Some ''how-to'', ti_isFavorite = False,
              ti_isSelected = True, ti_createdAt = 200\<rparr>]\<rparr>) = TitleIdeas db_S @ [idea])"
proof -
  let ?raw = "\<lparr>ci_sessionId = ''S'', ci_titleText = ''Tips That Work'', ci_tone = None,
      ci_style = Some ''how-to'', ci_isFavorite = None, ci_isSelected = Some True\<rparr>"
  let ?row = "\<lparr>ti_id = ''I3'', ti_sessionId = ''S'', ti_titleText = ''Tips That Work'',
             ti_tone = None, ti_style = Some ''how-to'', ti_isFavorite = False,
             ti_isSelected = True, ti_createdAt = 200\<rparr>"
  have run: "createTitleIdea env_1 ?raw user_a db_S =
     (Inr (IdeaData (Some ?row)), db_S\<lparr>TitleIdeas := [idea_I1, idea_I2, ?row]\<rparr>,
      [Select TitleSessionsTable, Insert TitleIdeasTable])"
    by (simp add: run_defs sample_defs)
  from createTitleIdea_result[OF run]
  have "\<exists>idea. ti_id idea = randomUUID env_1 \<and> randomUUID env_1 \<notin> set (map ti_id (TitleIdeas db_S)) \<and>
      ti_isFavorite idea = False \<and> ti_isSelected idea = True \<and> ti_createdAt idea = now env_1 \<and>
      TitleIdeas (db_S\<lparr>TitleIdeas := [idea_I1, idea_I2, ?row]\<rparr>) = TitleIdeas db_S @ [idea]"
    by (elim exE conjE, intro exI conjI) simp_all
  with run show ?thesis by blast
qed

subsection \<open>Failures leave the store unchanged (C10)\<close>

text \<open>
  C10. Whenever one of the seven actions fails, the store is what it was before the
  call. For \<open>UNAUTHORIZED\<close>, a validation error and \<open>NOT_FOUND\<close> no write was issued,
  except by \<open>deleteTitleIdea\<close>, whose only write is a delete that affected zero rows.
  (The remaining failure is the store's rejection of an insert.)
\<close>

theorem error_leaves_store_unchanged:
  assumes "server e a context d = (Inl err, d', tr)"
  shows "d' = d \<and>
    ((\<forall>t. err \<noteq> ConstraintError t) \<longrightarrow>
       filter is_write tr = [] \<or>
       (is_deleteTitleIdea a \<and> filter is_write tr = [Delete TitleIdeasTable 0]))"
proof (cases "input_issues a = []")
  case False
  with assms show ?thesis by (simp add: server_unfold del: server.simps input_issues.simps)
next
  case True
  show ?thesis
  proof (cases a)
    case (CreateTitleSession raw)
    with assms True show ?thesis
      using other_handler_error(1)[of e raw "context" d err d' tr] by (simp add: server_unfold)
  next
    case (UpdateTitleSession raw)
    with assms True show ?thesis
      using other_handler_error(2)[of e raw "context" d err d' tr] by (simp add: server_unfold)
  next
    case ListTitleSessions
    with assms True show ?thesis
      using other_handler_error(3)[of e "()" "context" d err d' tr] by (simp add: server_unfold)
  next
    case (CreateTitleIdea raw)
    with assms True show ?thesis
      using other_handler_error(4)[of e raw "context" d err d' tr] by (simp add: server_unfold)
  next
    case (UpdateTitleIdea raw)
    with assms True show ?thesis
      using other_handler_error(5)[of e raw "context" d err d' tr] by (simp add: server_unfold)
  next
    case (DeleteTitleIdea raw)
    with assms True show ?thesis
      using deleteTitleIdea_handler_error[of e raw "context" d err d' tr] by (simp add: server_unfold)
  next
    case (ListTitleIdeas raw)
    with assms True show ?thesis
      using other_handler_error(6)[of e _ "context" d err d' tr] by (simp add: server_unfold)
  qed
qed

text \<open>Deleting an idea that is not there: the delete is issued and affects no row.\<close>

theorem error_leaves_store_unchanged_witness:
  "server env_1 (DeleteTitleIdea \<lparr>di_id = ''I9'', di_sessionId = ''S''\<rparr>) user_a db_S =
     (Inl (ActionError NOT_FOUND ''Title idea not found.''), db_S,
      [Select TitleSessionsTable, Delete TitleIdeasTable 0]) \<and>
   (filter is_write [Select TitleSessionsTable, Delete TitleIdeasTable 0] = [] \<or>
    is_deleteTitleIdea (DeleteTitleIdea \<lparr>di_id = ''I9'', di_sessionId = ''S''\<rparr>) \<and>
    filter is_write [Select TitleSessionsTable, Delete TitleIdeasTable 0] = [Delete TitleIdeasTable 0])"
proof -
  have run: "server env_1 (DeleteTitleIdea \<lparr>di_id = ''I9'', di_sessionId = ''S''\<rparr>) user_a db_S =
     (Inl (ActionError NOT_FOUND ''Title idea not found.''), db_S,
      [Select TitleSessionsTable, Delete TitleIdeasTable 0])"
    by (simp add: run_defs sample_defs)
  from error_leaves_store_unchanged[OF run] run show ?thesis by simp
qed

end
